theory Spec2Isabelle
  imports Complex_Main "HOL-Library.Word" "HOL-Library.Code_Target_Numeral"
begin

section \<open>JavaScript strings\<close>

text \<open>
  A JavaScript string is a sequence of UTF-16 code units, and \<open>line[i]\<close>, \<open>includes\<close>,
  \<open>length\<close> and the regular expressions of the source (none has the \<open>u\<close> flag) all work
  on code units. The literal of the source \<open>'abc'\<close> is \<open>js ''abc''\<close>; a code unit outside
  ASCII is written as its number.
\<close>

type_synonym jsstring = "16 word list"

definition js :: "string \<Rightarrow> jsstring" where
  "js s = map of_char s"

text \<open>
  \<open>String.prototype.toLowerCase\<close>: every code unit becomes the code units of its lower
  case. The letters A..Z and the Latin-1 capitals U+00C0..U+00DE (U+00D7, the
  multiplication sign, is not a letter) move up by 32. U+0130, the capital I with a dot,
  becomes i and the combining dot U+0307; U+0178 becomes U+00FF, U+1E9E becomes U+00DF,
  the Kelvin sign U+212A becomes k and the Angstrom sign U+212B becomes U+00E5: these
  five are all the characters above U+00FF whose lower case has a code unit below U+0100.
  Every other code unit above U+00FF is left as it is; its lower case in Unicode is made
  of code units above U+00FF again, so every test \<open>includes\<close> with a keyword of code
  units below U+0100 (all the keywords of the source are ASCII) has the same answer here
  as on the lower case of Unicode.
\<close>

definition lowerUnit :: "16 word \<Rightarrow> jsstring" where
  "lowerUnit c =
     (if 0x41 \<le> c \<and> c \<le> 0x5A then [c + 0x20]
      else if 0xC0 \<le> c \<and> c \<le> 0xDE \<and> c \<noteq> 0xD7 then [c + 0x20]
      else if c = 0x130 then [0x69, 0x307]
      else if c = 0x178 then [0xFF]
      else if c = 0x1E9E then [0xDF]
      else if c = 0x212A then [0x6B]
      else if c = 0x212B then [0xE5]
      else [c])"

definition toLowerCase :: "jsstring \<Rightarrow> jsstring" where
  "toLowerCase s = concat (map lowerUnit s)"

fun startsWith :: "jsstring \<Rightarrow> jsstring \<Rightarrow> bool" where
  "startsWith xs [] = True"
| "startsWith [] (y # ys) = False"
| "startsWith (x # xs) (y # ys) = (x = y \<and> startsWith xs ys)"

text \<open>\<open>text.includes(k)\<close>: \<open>k\<close> occurs in \<open>text\<close> as a contiguous run of code units.\<close>

fun includesStr :: "jsstring \<Rightarrow> jsstring \<Rightarrow> bool" where
  "includesStr [] k = (k = [])"
| "includesStr (x # xs) k = (startsWith (x # xs) k \<or> includesStr xs k)"

section \<open>Transaction categories and the categorizer\<close>

datatype TransactionCategory =
  Food | Transportation | Entertainment | Utilities | Rent | Healthcare
  | Shopping | Education | Salary | Investment | Other

text \<open>
  The text the cascade looks at: \<open>`${description} ${merchantName || ''}`.toLowerCase()\<close>.
  An absent merchant name (\<open>undefined\<close>) is \<open>None\<close>; it and the empty string both
  contribute nothing after the blank.
\<close>

definition categorizeText :: "jsstring \<Rightarrow> jsstring option \<Rightarrow> jsstring" where
  "categorizeText description merchantName =
     toLowerCase (description @ js '' '' @ (case merchantName of None \<Rightarrow> [] | Some m \<Rightarrow> m))"

definition categorizeTransaction :: "jsstring \<Rightarrow> jsstring option \<Rightarrow> TransactionCategory" where
  "categorizeTransaction description merchantName =
     (let text = categorizeText description merchantName in
      if includesStr text (js ''restaurant'') \<or>
         includesStr text (js ''food'') \<or>
         includesStr text (js ''cafe'') \<or>
         includesStr text (js ''coffee'') \<or>
         includesStr text (js ''pizza'') \<or>
         includesStr text (js ''burger'') \<or>
         includesStr text (js ''grocery'') \<or>
         includesStr text (js ''supermarket'') \<or>
         includesStr text (js ''market'')
      then Food
      else if includesStr text (js ''uber'') \<or>
         includesStr text (js ''lyft'') \<or>
         includesStr text (js ''gas'') \<or>
         includesStr text (js ''fuel'') \<or>
         includesStr text (js ''parking'') \<or>
         includesStr text (js ''transit'') \<or>
         includesStr text (js ''metro'') \<or>
         includesStr text (js ''bus'')
      then Transportation
      else if includesStr text (js ''netflix'') \<or>
         includesStr text (js ''spotify'') \<or>
         includesStr text (js ''hulu'') \<or>
         includesStr text (js ''disney'') \<or>
         includesStr text (js ''hbo'') \<or>
         includesStr text (js ''movie'') \<or>
         includesStr text (js ''theater'') \<or>
         includesStr text (js ''concert'') \<or>
         includesStr text (js ''game'')
      then Entertainment
      else if includesStr text (js ''electric'') \<or>
         includesStr text (js ''water'') \<or>
         includesStr text (js ''gas utility'') \<or>
         includesStr text (js ''internet'') \<or>
         includesStr text (js ''phone'') \<or>
         includesStr text (js ''cable'')
      then Utilities
      else if includesStr text (js ''rent'') \<or>
         includesStr text (js ''lease'') \<or>
         includesStr text (js ''mortgage'')
      then Rent
      else if includesStr text (js ''pharmacy'') \<or>
         includesStr text (js ''doctor'') \<or>
         includesStr text (js ''hospital'') \<or>
         includesStr text (js ''medical'') \<or>
         includesStr text (js ''health'')
      then Healthcare
      else if includesStr text (js ''amazon'') \<or>
         includesStr text (js ''walmart'') \<or>
         includesStr text (js ''target'') \<or>
         includesStr text (js ''store'') \<or>
         includesStr text (js ''shop'')
      then Shopping
      else if includesStr text (js ''salary'') \<or>
         includesStr text (js ''payroll'') \<or>
         includesStr text (js ''direct deposit'') \<or>
         includesStr text (js ''payment received'')
      then Salary
      else Other)"

text \<open>The keywords of the cascade, in the order of the source, each with its category.\<close>

definition cascadeKeywords :: "(string \<times> TransactionCategory) list" where
  "cascadeKeywords =
     [(''restaurant'', Food), (''food'', Food), (''cafe'', Food), (''coffee'', Food),
      (''pizza'', Food), (''burger'', Food), (''grocery'', Food), (''supermarket'', Food),
      (''market'', Food),
      (''uber'', Transportation), (''lyft'', Transportation), (''gas'', Transportation),
      (''fuel'', Transportation), (''parking'', Transportation), (''transit'', Transportation),
      (''metro'', Transportation), (''bus'', Transportation),
      (''netflix'', Entertainment), (''spotify'', Entertainment), (''hulu'', Entertainment),
      (''disney'', Entertainment), (''hbo'', Entertainment), (''movie'', Entertainment),
      (''theater'', Entertainment), (''concert'', Entertainment), (''game'', Entertainment),
      (''electric'', Utilities), (''water'', Utilities), (''gas utility'', Utilities),
      (''internet'', Utilities), (''phone'', Utilities), (''cable'', Utilities),
      (''rent'', Rent), (''lease'', Rent), (''mortgage'', Rent),
      (''pharmacy'', Healthcare), (''doctor'', Healthcare), (''hospital'', Healthcare),
      (''medical'', Healthcare), (''health'', Healthcare),
      (''amazon'', Shopping), (''walmart'', Shopping), (''target'', Shopping),
      (''store'', Shopping), (''shop'', Shopping),
      (''salary'', Salary), (''payroll'', Salary), (''direct deposit'', Salary),
      (''payment received'', Salary)]"

text \<open>
  The cascade as the specification words it: the category of the first keyword of the
  ordered table that occurs in the text, \<open>Other\<close> when none does.
\<close>

fun firstKeyword :: "(string \<times> TransactionCategory) list \<Rightarrow> jsstring \<Rightarrow> TransactionCategory" where
  "firstKeyword [] text = Other"
| "firstKeyword ((k, c) # rest) text = (if includesStr text (js k) then c else firstKeyword rest text)"

section \<open>Bank column patterns and auto-detection\<close>

record BankPattern =
  name :: jsstring
  dateColumns :: "jsstring list"
  descriptionColumns :: "jsstring list"
  amountColumns :: "jsstring list"
  typeColumn :: "jsstring option"
  accountColumns :: "jsstring list"

definition bankOfAmerica :: BankPattern where
  "bankOfAmerica = \<lparr>name = js ''Bank of America'',
     dateColumns = [js ''Posted Date'', js ''Date''],
     descriptionColumns = [js ''Payee'', js ''Description''],
     amountColumns = [js ''Amount''],
     typeColumn = None,
     accountColumns = [js ''Account'']\<rparr>"

definition chase :: BankPattern where
  "chase = \<lparr>name = js ''Chase'',
     dateColumns = [js ''Posting Date'', js ''Transaction Date''],
     descriptionColumns = [js ''Description''],
     amountColumns = [js ''Amount''],
     typeColumn = Some (js ''Type''),
     accountColumns = [js ''Account'']\<rparr>"

definition wellsFargo :: BankPattern where
  "wellsFargo = \<lparr>name = js ''Wells Fargo'',
     dateColumns = [js ''Date''],
     descriptionColumns = [js ''Description'', js ''Merchant''],
     amountColumns = [js ''Amount''],
     typeColumn = None,
     accountColumns = [js ''Account Number'']\<rparr>"

definition citi :: BankPattern where
  "citi = \<lparr>name = js ''Citi'',
     dateColumns = [js ''Date''],
     descriptionColumns = [js ''Description''],
     amountColumns = [js ''Debit'', js ''Credit''],
     typeColumn = None,
     accountColumns = []\<rparr>"

definition capitalOne :: BankPattern where
  "capitalOne = \<lparr>name = js ''Capital One'',
     dateColumns = [js ''Transaction Date''],
     descriptionColumns = [js ''Description''],
     amountColumns = [js ''Debit'', js ''Credit''],
     typeColumn = None,
     accountColumns = [js ''Account Number'']\<rparr>"

definition amex :: BankPattern where
  "amex = \<lparr>name = js ''American Express'',
     dateColumns = [js ''Date''],
     descriptionColumns = [js ''Description''],
     amountColumns = [js ''Amount''],
     typeColumn = None,
     accountColumns = [js ''Card Member'']\<rparr>"

text \<open>\<open>Array.prototype.join\<close> on an array of strings.\<close>

fun join :: "jsstring \<Rightarrow> jsstring list \<Rightarrow> jsstring" where
  "join sep [] = []"
| "join sep [x] = x"
| "join sep (x # y # ys) = x @ sep @ join sep (y # ys)"

definition headerStr :: "jsstring list \<Rightarrow> jsstring" where
  "headerStr headers = toLowerCase (join (js '','') headers)"

definition autoDetectBank :: "jsstring list \<Rightarrow> BankPattern option" where
  "autoDetectBank headers =
     (let h = headerStr headers in
      if includesStr h (js ''posted date'') \<and> includesStr h (js ''payee'')
      then Some bankOfAmerica
      else if includesStr h (js ''posting date'') \<or>
              (includesStr h (js ''type'') \<and> includesStr h (js ''description''))
      then Some chase
      else if includesStr h (js ''wells'') \<or>
              (includesStr h (js ''date'') \<and> includesStr h (js ''amount'') \<and> length headers \<le> 5)
      then Some wellsFargo
      else if includesStr h (js ''debit'') \<and> includesStr h (js ''credit'') \<and>
              includesStr h (js ''status'')
      then Some citi
      else if includesStr h (js ''transaction date'') \<and>
              (includesStr h (js ''debit'') \<or> includesStr h (js ''credit''))
      then Some capitalOne
      else if includesStr h (js ''card member'') \<or> includesStr h (js ''amex'')
      then Some amex
      else None)"

text \<open>
  The header row a bank pattern itself lists: its date, description and amount columns,
  its type column when it has one, and its account columns, in the order of the entry in
  \<open>BANK_PATTERNS\<close>. For Citi this is Date, Description, Debit, Credit and for American
  Express Date, Description, Amount, Card Member.
\<close>

definition canonicalHeaders :: "BankPattern \<Rightarrow> jsstring list" where
  "canonicalHeaders p =
     dateColumns p @ descriptionColumns p @ amountColumns p @
     (case typeColumn p of None \<Rightarrow> [] | Some t \<Rightarrow> [t]) @ accountColumns p"

text \<open>
  The detection table as the specification words it: six predicates on the header row,
  each with its bank, tried from the first to the last.
\<close>

definition hasText :: "jsstring list \<Rightarrow> string \<Rightarrow> bool" where
  "hasText headers k = includesStr (headerStr headers) (js k)"

definition isBankOfAmerica :: "jsstring list \<Rightarrow> bool" where
  "isBankOfAmerica hs = (hasText hs ''posted date'' \<and> hasText hs ''payee'')"

definition isChase :: "jsstring list \<Rightarrow> bool" where
  "isChase hs = (hasText hs ''posting date'' \<or> (hasText hs ''type'' \<and> hasText hs ''description''))"

definition isWellsFargo :: "jsstring list \<Rightarrow> bool" where
  "isWellsFargo hs =
     (hasText hs ''wells'' \<or> (hasText hs ''date'' \<and> hasText hs ''amount'' \<and> length hs \<le> 5))"

definition isCiti :: "jsstring list \<Rightarrow> bool" where
  "isCiti hs = (hasText hs ''debit'' \<and> hasText hs ''credit'' \<and> hasText hs ''status'')"

definition isCapitalOne :: "jsstring list \<Rightarrow> bool" where
  "isCapitalOne hs =
     (hasText hs ''transaction date'' \<and> (hasText hs ''debit'' \<or> hasText hs ''credit''))"

definition isAmericanExpress :: "jsstring list \<Rightarrow> bool" where
  "isAmericanExpress hs = (hasText hs ''card member'' \<or> hasText hs ''amex'')"

definition detectionRules :: "((jsstring list \<Rightarrow> bool) \<times> BankPattern) list" where
  "detectionRules =
     [(isBankOfAmerica, bankOfAmerica), (isChase, chase), (isWellsFargo, wellsFargo),
      (isCiti, citi), (isCapitalOne, capitalOne), (isAmericanExpress, amex)]"

fun firstRule :: "((jsstring list \<Rightarrow> bool) \<times> BankPattern) list \<Rightarrow> jsstring list \<Rightarrow> BankPattern option" where
  "firstRule [] hs = None"
| "firstRule ((p, b) # rules) hs = (if p hs then Some b else firstRule rules hs)"

section \<open>The CSV line parser\<close>

text \<open>
  The white space of \<open>String.prototype.trim\<close> and of the class \<open>\s\<close>: the WhiteSpace and
  LineTerminator code points of ECMAScript, all of them single code units.
\<close>

definition isWhiteSpace :: "16 word \<Rightarrow> bool" where
  "isWhiteSpace c =
     (c = 0x09 \<or> c = 0x0A \<or> c = 0x0B \<or> c = 0x0C \<or> c = 0x0D \<or> c = 0x20 \<or> c = 0xA0 \<or>
      c = 0x1680 \<or> (0x2000 \<le> c \<and> c \<le> 0x200A) \<or> c = 0x2028 \<or> c = 0x2029 \<or>
      c = 0x202F \<or> c = 0x205F \<or> c = 0x3000 \<or> c = 0xFEFF)"

definition trim :: "jsstring \<Rightarrow> jsstring" where
  "trim s = rev (dropWhile isWhiteSpace (rev (dropWhile isWhiteSpace s)))"

abbreviation dquote :: "16 word" where
  "dquote \<equiv> 0x22"

abbreviation comma :: "16 word" where
  "comma \<equiv> 0x2C"

text \<open>
  The loop of \<open>parseCSVLine\<close> over the rest of the line, with its three variables. The
  look-ahead \<open>line[i + 1]\<close> is the head of the rest, \<open>undefined\<close> at the end of the line;
  \<open>i++\<close> inside the body skips it.
\<close>

fun parseCSVLoop :: "jsstring \<Rightarrow> bool \<Rightarrow> jsstring \<Rightarrow> jsstring list \<Rightarrow> jsstring list" where
  "parseCSVLoop [] inQuotes current result = result @ [trim current]"
| "parseCSVLoop [c] inQuotes current result =
     (if c = dquote then parseCSVLoop [] (\<not> inQuotes) current result
      else if c = comma \<and> \<not> inQuotes then parseCSVLoop [] inQuotes [] (result @ [trim current])
      else parseCSVLoop [] inQuotes (current @ [c]) result)"
| "parseCSVLoop (c # nextChar # rest) inQuotes current result =
     (if c = dquote then
        (if inQuotes \<and> nextChar = dquote
         then parseCSVLoop rest inQuotes (current @ [dquote]) result
         else parseCSVLoop (nextChar # rest) (\<not> inQuotes) current result)
      else if c = comma \<and> \<not> inQuotes
        then parseCSVLoop (nextChar # rest) inQuotes [] (result @ [trim current])
      else parseCSVLoop (nextChar # rest) inQuotes (current @ [c]) result)"

definition parseCSVLine :: "jsstring \<Rightarrow> jsstring list" where
  "parseCSVLine line = parseCSVLoop line False [] []"

text \<open>
  Writing a field the way the parser reads it back: every double quote doubled, the whole
  wrapped in double quotes.
\<close>

definition escapeQuotes :: "jsstring \<Rightarrow> jsstring" where
  "escapeQuotes f = concat (map (\<lambda>c. if c = dquote then [dquote, dquote] else [c]) f)"

definition quoteField :: "jsstring \<Rightarrow> jsstring" where
  "quoteField f = dquote # escapeQuotes f @ [dquote]"

text \<open>
  A field of a line as it is written: in quotes, or plain. A plain field cannot hold a
  comma or a double quote.
\<close>

fun writeField :: "bool \<times> jsstring \<Rightarrow> jsstring" where
  "writeField (quoted, f) = (if quoted then quoteField f else f)"

fun plainOk :: "bool \<times> jsstring \<Rightarrow> bool" where
  "plainOk (quoted, f) = (quoted \<or> (dquote \<notin> set f \<and> comma \<notin> set f))"

section \<open>JavaScript numbers\<close>

text \<open>
  A JavaScript number is a binary64 float. Here a finite number is the rational it stands
  for, and \<open>NaN\<close> and the two infinities are values of their own. The two zeros are one
  value.
\<close>

datatype jsnum = NaN | PosInf | NegInf | Fin rat

text \<open>
  The operators \<open>+\<close>, \<open>-\<close>, \<open>*\<close>, \<open>/\<close> and \<open><\<close> on numbers, with the results IEEE 754
  gives on \<open>NaN\<close>, the infinities and a zero divisor (the zero being the positive one).
  On two finite numbers \<open>jsAdd\<close>, \<open>jsMul\<close> and \<open>jsDiv\<close> give the exact sum, product
  and quotient, before any rounding.
\<close>

fun jsNeg :: "jsnum \<Rightarrow> jsnum" where
  "jsNeg NaN = NaN"
| "jsNeg PosInf = NegInf"
| "jsNeg NegInf = PosInf"
| "jsNeg (Fin a) = Fin (- a)"

fun jsAdd :: "jsnum \<Rightarrow> jsnum \<Rightarrow> jsnum" where
  "jsAdd (Fin a) (Fin b) = Fin (a + b)"
| "jsAdd NaN y = NaN"
| "jsAdd x NaN = NaN"
| "jsAdd PosInf NegInf = NaN"
| "jsAdd NegInf PosInf = NaN"
| "jsAdd PosInf y = PosInf"
| "jsAdd NegInf y = NegInf"
| "jsAdd (Fin a) y = y"

definition jsSub :: "jsnum \<Rightarrow> jsnum \<Rightarrow> jsnum" where
  "jsSub x y = jsAdd x (jsNeg y)"

text \<open>The sign of a number that is not NaN: negative, zero or positive.\<close>

fun jsSign :: "jsnum \<Rightarrow> int" where
  "jsSign NaN = 0"
| "jsSign PosInf = 1"
| "jsSign NegInf = - 1"
| "jsSign (Fin a) = (if a < 0 then - 1 else if a = 0 then 0 else 1)"

fun jsMul :: "jsnum \<Rightarrow> jsnum \<Rightarrow> jsnum" where
  "jsMul (Fin a) (Fin b) = Fin (a * b)"
| "jsMul NaN y = NaN"
| "jsMul x NaN = NaN"
| "jsMul x y =
     (if jsSign x * jsSign y = 0 then NaN
      else if jsSign x * jsSign y > 0 then PosInf else NegInf)"

fun jsDiv :: "jsnum \<Rightarrow> jsnum \<Rightarrow> jsnum" where
  "jsDiv (Fin a) (Fin b) =
     (if b \<noteq> 0 then Fin (a / b)
      else if a = 0 then NaN
      else if a > 0 then PosInf else NegInf)"
| "jsDiv NaN y = NaN"
| "jsDiv x NaN = NaN"
| "jsDiv (Fin a) y = Fin 0"
| "jsDiv x (Fin b) = (if (jsSign x > 0) = (b \<ge> 0) then PosInf else NegInf)"
| "jsDiv x y = NaN"

fun jsLt :: "jsnum \<Rightarrow> jsnum \<Rightarrow> bool" where
  "jsLt (Fin a) (Fin b) = (a < b)"
| "jsLt NaN y = False"
| "jsLt x NaN = False"
| "jsLt x NegInf = False"
| "jsLt PosInf y = False"
| "jsLt x y = True"

text \<open>
  Rounding to binary64. A finite Number other than zero is \<open>n * 2 ^ (e - 52)\<close> with
  \<open>e\<close> from -1022 to 1023 and \<open>n\<close> below \<open>2 ^ 53\<close>, and at least \<open>2 ^ 52\<close> unless \<open>e\<close> is
  -1022. \<open>binary64 x\<close> is the Number nearest to the rational \<open>x\<close>, the one of even \<open>n\<close>
  when two are equally near. It is the infinity of the sign of \<open>x\<close> when the rounding
  reaches \<open>2 ^ 1024\<close>: when the exponent of \<open>x\<close> is above 1023, or is 1023 and \<open>n\<close>
  rounds up to \<open>2 ^ 53\<close>. \<open>binaryExponent a\<close> is the \<open>e\<close> with
  \<open>2 ^ e \<le> a < 2 ^ (e + 1)\<close> for a positive \<open>a\<close>: one less than the number of bits of
  the integer part of \<open>a\<close> when \<open>a\<close> is at least 1, and otherwise the least \<open>k\<close> with
  \<open>1 / a \<le> 2 ^ k\<close>, negated.
\<close>

definition pow2 :: "int \<Rightarrow> rat" where
  "pow2 e = (if 0 \<le> e then 2 ^ nat e else 1 / 2 ^ nat (- e))"

function bitLength :: "int \<Rightarrow> int" where
  "bitLength n = (if n \<le> 0 then 0 else 1 + bitLength (n div 2))"
  by pat_completeness auto
termination
  by (relation "measure nat") auto

declare bitLength.simps [simp del]

definition binaryExponent :: "rat \<Rightarrow> int" where
  "binaryExponent a = (if 1 \<le> a then bitLength \<lfloor>a\<rfloor> - 1 else - bitLength (\<lceil>1 / a\<rceil> - 1))"

definition roundHalfEven :: "rat \<Rightarrow> int" where
  "roundHalfEven x =
     (let n = \<lfloor>x\<rfloor>; r = x - of_int n
      in if r < 1 / 2 then n else if 1 / 2 < r then n + 1 else if even n then n else n + 1)"

definition binary64 :: "rat \<Rightarrow> jsnum" where
  "binary64 x =
     (if x = 0 then Fin 0
      else
        (let e = binaryExponent \<bar>x\<bar> in
         if 1023 < e then (if x < 0 then NegInf else PosInf)
         else
           (let ulp = pow2 (max e (- 1022) - 52);
                n = roundHalfEven (\<bar>x\<bar> / ulp)
            in if e = 1023 \<and> n = 2 ^ 53 then (if x < 0 then NegInf else PosInf)
               else Fin (if x < 0 then - (of_int n * ulp) else of_int n * ulp))))"

text \<open>
  IEEE 754 defines the sum, the difference, the product and the quotient of two numbers
  as the rounding of the exact result: \<open>add64\<close>, \<open>sub64\<close>, \<open>mul64\<close> and \<open>div64\<close> are
  the operators of the source on binary64 values, bit for bit (but for the sign of a
  zero). \<open>parseFloat\<close> and the statistics of \<open>identifyRecurringTransactions\<close>, on whose
  last bit a comparison can turn, are computed with the rounding. The totals, ratios and
  percentages of the insight detectors, of the pattern functions and of the daily budget
  are kept exact, as \<open>jsAdd\<close>, \<open>jsMul\<close> and \<open>jsDiv\<close> give them.
\<close>

fun f64 :: "jsnum \<Rightarrow> jsnum" where
  "f64 (Fin a) = binary64 a"
| "f64 x = x"

definition add64 :: "jsnum \<Rightarrow> jsnum \<Rightarrow> jsnum" where
  "add64 x y = f64 (jsAdd x y)"

definition sub64 :: "jsnum \<Rightarrow> jsnum \<Rightarrow> jsnum" where
  "sub64 x y = f64 (jsSub x y)"

definition mul64 :: "jsnum \<Rightarrow> jsnum \<Rightarrow> jsnum" where
  "mul64 x y = f64 (jsMul x y)"

definition div64 :: "jsnum \<Rightarrow> jsnum \<Rightarrow> jsnum" where
  "div64 x y = f64 (jsDiv x y)"

section \<open>Amounts\<close>

text \<open>
  \<open>parseFloat\<close> after ECMAScript: leading white space is skipped, then the longest
  prefix that is a decimal literal is read (an optional sign, then \<open>Infinity\<close>, or
  digits with an optional fraction, or a fraction alone, each with an optional exponent
  that counts only when it has a digit); \<open>NaN\<close> when no prefix is one. The result is
  the Number nearest to the decimal value of the literal: \<open>parseUnsigned\<close> gives the
  exact value of the unsigned literal and \<open>parseFloat\<close> rounds it. (For a literal of
  more than twenty significant digits ECMAScript lets an engine round the value with
  the later digits replaced by zeros, or that value with a carry, instead; the engines
  round the exact value.)
\<close>

definition isDigit :: "16 word \<Rightarrow> bool" where
  "isDigit c = (0x30 \<le> c \<and> c \<le> 0x39)"

definition digitsValue :: "jsstring \<Rightarrow> nat" where
  "digitsValue ds = foldl (\<lambda>n c. 10 * n + unat (c - 0x30)) 0 ds"

definition pow10 :: "int \<Rightarrow> rat" where
  "pow10 e = (if 0 \<le> e then 10 ^ nat e else 1 / 10 ^ nat (- e))"

definition parseExponent :: "jsstring \<Rightarrow> int" where
  "parseExponent s =
     (case s of
        [] \<Rightarrow> 0
      | e # r \<Rightarrow>
          if e = 0x65 \<or> e = 0x45 then
            (case r of
               [] \<Rightarrow> 0
             | sg # r' \<Rightarrow>
                 if sg = 0x2D then
                   (if takeWhile isDigit r' = [] then 0 else - int (digitsValue (takeWhile isDigit r')))
                 else if sg = 0x2B then
                   (if takeWhile isDigit r' = [] then 0 else int (digitsValue (takeWhile isDigit r')))
                 else int (digitsValue (takeWhile isDigit r)))
          else 0)"

definition parseUnsigned :: "jsstring \<Rightarrow> rat option" where
  "parseUnsigned u =
     (let d1 = takeWhile isDigit u; r1 = dropWhile isDigit u in
      case r1 of
        [] \<Rightarrow> if d1 = [] then None else Some (of_nat (digitsValue d1))
      | c # r \<Rightarrow>
          if c = 0x2E then
            (let d2 = takeWhile isDigit r; r2 = dropWhile isDigit r in
             if d1 = [] \<and> d2 = [] then None
             else Some (of_nat (digitsValue (d1 @ d2)) / 10 ^ length d2 * pow10 (parseExponent r2)))
          else if d1 = [] then None
          else Some (of_nat (digitsValue d1) * pow10 (parseExponent r1)))"

definition parseFloat :: "jsstring \<Rightarrow> jsnum" where
  "parseFloat s =
     (let t = dropWhile isWhiteSpace s;
          neg = (t \<noteq> [] \<and> hd t = 0x2D);
          u = (if t \<noteq> [] \<and> (hd t = 0x2D \<or> hd t = 0x2B) then tl t else t)
      in if startsWith u (js ''Infinity'') then (if neg then NegInf else PosInf)
         else case parseUnsigned u of
                None \<Rightarrow> NaN
              | Some v \<Rightarrow> binary64 (if neg then - v else v))"

text \<open>
  \<open>parseAmount\<close>. The first \<open>replace\<close> deletes every code unit of the class
  \<open>[$\<euro>\<pounds>\<yen>,\s]\<close> (dollar, euro U+20AC, pound U+00A3, yen U+00A5, comma, white space); the
  second turns each parenthesis into a minus sign.
\<close>

definition isAmountNoise :: "16 word \<Rightarrow> bool" where
  "isAmountNoise c = (c = 0x24 \<or> c = 0x20AC \<or> c = 0xA3 \<or> c = 0xA5 \<or> c = 0x2C \<or> isWhiteSpace c)"

definition cleanAmount :: "jsstring \<Rightarrow> jsstring" where
  "cleanAmount amountStr =
     trim (map (\<lambda>c. if c = 0x28 \<or> c = 0x29 then 0x2D else c) (filter (\<lambda>c. \<not> isAmountNoise c) amountStr))"

definition parseAmount :: "jsstring \<Rightarrow> jsnum" where
  "parseAmount amountStr =
     (let amount = parseFloat (cleanAmount amountStr) in
      if amount = NaN then Fin 0 else amount)"

text \<open>The value of the digits \<open>ds\<close>, a point, and the digits \<open>fs\<close>.\<close>

definition decimalValue :: "jsstring \<Rightarrow> jsstring \<Rightarrow> rat" where
  "decimalValue ds fs = of_nat (digitsValue (ds @ fs)) / 10 ^ length fs"

section \<open>Dates\<close>

text \<open>
  A \<open>Date\<close> is its time value, the milliseconds since 1970-01-01T00:00:00Z. The
  calendar fields of a date (\<open>getFullYear\<close>, \<open>getMonth\<close>, \<open>getDate\<close>) and the
  constructor \<open>new Date(year, monthIndex, day)\<close> are those of the proleptic Gregorian
  calendar; the local time zone of the device is taken to be UTC. Months count from 0,
  and \<open>new Date\<close> carries a month index outside 0..11 into the year and a day outside
  the month into the neighbouring months, as ECMAScript's MakeDay does. The day number
  of a civil date and back are computed by eras of 400 years, the year starting in March.
\<close>

type_synonym timeValue = int

definition msPerDay :: int where
  "msPerDay = 86400000"

definition daysFromCivil :: "int \<Rightarrow> int \<Rightarrow> int \<Rightarrow> int" where
  "daysFromCivil y m d =
     (let y' = (if m \<le> 2 then y - 1 else y);
          era = y' div 400;
          yoe = y' - era * 400;
          doy = (153 * (if m > 2 then m - 3 else m + 9) + 2) div 5 + d - 1;
          doe = yoe * 365 + yoe div 4 - yoe div 100 + doy
      in era * 146097 + doe - 719468)"

definition civilFromDays :: "int \<Rightarrow> int \<times> int \<times> int" where
  "civilFromDays z =
     (let z' = z + 719468;
          era = z' div 146097;
          doe = z' - era * 146097;
          yoe = (doe - doe div 1460 + doe div 36524 - doe div 146096) div 365;
          doy = doe - (365 * yoe + yoe div 4 - yoe div 100);
          mp = (5 * doy + 2) div 153;
          d = doy - (153 * mp + 2) div 5 + 1;
          m = (if mp < 10 then mp + 3 else mp - 9)
      in (if m \<le> 2 then yoe + era * 400 + 1 else yoe + era * 400, m, d))"

definition getFullYear :: "timeValue \<Rightarrow> int" where
  "getFullYear t = fst (civilFromDays (t div msPerDay))"

definition getMonth :: "timeValue \<Rightarrow> int" where
  "getMonth t = fst (snd (civilFromDays (t div msPerDay))) - 1"

definition getDate :: "timeValue \<Rightarrow> int" where
  "getDate t = snd (snd (civilFromDays (t div msPerDay)))"

definition makeDate :: "int \<Rightarrow> int \<Rightarrow> int \<Rightarrow> timeValue" where
  "makeDate year monthIndex day =
     (daysFromCivil (year + monthIndex div 12) (monthIndex mod 12 + 1) 1 + day - 1) * msPerDay"

section \<open>Transactions and recurring charges\<close>

text \<open>
  The fields \<open>id\<close> and \<open>notes\<close> of a \<open>Transaction\<close> are \<open>txId\<close> and \<open>txNotes\<close>
  here; an optional field that is absent is \<open>None\<close>.
\<close>

datatype TransactionType = Income | Expense

record Transaction =
  txId :: jsstring
  accountId :: jsstring
  date :: timeValue
  description :: jsstring
  amount :: jsnum
  type :: TransactionType
  category :: TransactionCategory
  isRecurring :: bool
  merchantName :: "jsstring option"
  location :: "jsstring option"
  txNotes :: "jsstring option"

text \<open>
  \<open>identifyRecurringTransactions\<close>. The key of a transaction is
  \<open>t.merchantName || t.description\<close>: the description when the merchant name is absent or
  empty. The \<open>Map\<close> of the source keeps its keys in the order of their first insertion,
  so it is an association list, and \<open>forEach\<close> visits it from the head.
\<close>

definition merchantKey :: "Transaction \<Rightarrow> jsstring" where
  "merchantKey t =
     (case merchantName t of
        None \<Rightarrow> description t
      | Some m \<Rightarrow> if m = [] then description t else m)"

fun mapSet :: "'k \<Rightarrow> 'v \<Rightarrow> ('k \<times> 'v) list \<Rightarrow> ('k \<times> 'v) list" where
  "mapSet k v [] = [(k, v)]"
| "mapSet k v ((k', v') # m) = (if k' = k then (k, v) # m else (k', v') # mapSet k v m)"

definition mapGet :: "('k \<times> 'v) list \<Rightarrow> 'k \<Rightarrow> 'v option" where
  "mapGet m k = map_of m k"

definition groupByMerchant :: "Transaction list \<Rightarrow> (jsstring \<times> Transaction list) list" where
  "groupByMerchant transactions =
     foldl (\<lambda>merchantMap t.
        let merchant = merchantKey t;
            existing = (case mapGet merchantMap merchant of None \<Rightarrow> [] | Some e \<Rightarrow> e)
        in mapSet merchant (existing @ [t]) merchantMap) [] transactions"

record RecurringEntry =
  rMerchantName :: jsstring
  rAmount :: jsnum
  rFrequency :: nat

definition sumAmounts :: "jsnum list \<Rightarrow> jsnum" where
  "sumAmounts amounts = foldl (\<lambda>sum a. jsAdd sum a) (Fin 0) amounts"

text \<open>
  The mean and the variance of a group, every operation rounded to binary64: the sum
  from the left starting at 0, the division by the length (the length of an array is an
  integer below \<open>2 ^ 32\<close>, a Number as it is), and \<open>Math.pow(d, 2)\<close>, taken as the
  rounded square of the difference \<open>d\<close> (ECMAScript leaves the last bit of \<open>Math.pow\<close>
  to the engine). The literal \<open>0.1\<close> of the test is the Number nearest to one tenth.
\<close>

definition mathPow2 :: "jsnum \<Rightarrow> jsnum" where
  "mathPow2 x = mul64 x x"

fun recurringOf :: "jsstring \<times> Transaction list \<Rightarrow> RecurringEntry list" where
  "recurringOf (merchant, txs) =
     (if length txs < 2 then []
      else
        let amounts = map amount txs;
            avgAmount = div64 (foldl (\<lambda>sum a. add64 sum a) (Fin 0) amounts)
              (Fin (of_nat (length amounts)));
            variance = div64
              (foldl (\<lambda>sum a. add64 sum (mathPow2 (sub64 a avgAmount))) (Fin 0) amounts)
              (Fin (of_nat (length amounts)))
        in if jsLt variance (mul64 avgAmount (binary64 (1 / 10)))
           then [\<lparr>rMerchantName = merchant, rAmount = avgAmount, rFrequency = length txs\<rparr>]
           else [])"

definition identifyRecurringTransactions :: "Transaction list \<Rightarrow> RecurringEntry list" where
  "identifyRecurringTransactions transactions =
     concat (map recurringOf (groupByMerchant transactions))"

text \<open>
  The rule as the specification words it. The group of a key is the list of the
  transactions that have this key, in their order: the merchant name, or the description
  when the merchant name is absent or empty. The mean and the population variance of a
  list of numbers are computed in binary64, as any JavaScript computes them: the sum of
  the numbers, from the left, divided by their count, and the sum of the squares of their
  differences to the mean divided by their count.
\<close>

definition groupOf :: "Transaction list \<Rightarrow> jsstring \<Rightarrow> Transaction list" where
  "groupOf transactions m =
     filter (\<lambda>t. (if merchantName t = None \<or> merchantName t = Some [] then description t
                  else the (merchantName t)) = m) transactions"

definition sum64 :: "jsnum list \<Rightarrow> jsnum" where
  "sum64 xs = foldl add64 (Fin 0) xs"

definition mean :: "jsnum list \<Rightarrow> jsnum" where
  "mean xs = div64 (sum64 xs) (Fin (of_nat (length xs)))"

definition populationVariance :: "jsnum list \<Rightarrow> jsnum" where
  "populationVariance xs =
     div64 (sum64 (map (\<lambda>a. mul64 (sub64 a (mean xs)) (sub64 a (mean xs))) xs))
       (Fin (of_nat (length xs)))"

definition groupAmounts :: "Transaction list \<Rightarrow> jsstring \<Rightarrow> jsnum list" where
  "groupAmounts transactions m = map amount (groupOf transactions m)"

text \<open>
  Transactions for the examples: a charge at a merchant, and a payment that has no
  merchant name, only a description. The amount is the Number that the decimal literal
  denotes.
\<close>

definition charge :: "jsstring \<Rightarrow> rat \<Rightarrow> Transaction" where
  "charge m a = \<lparr>txId = [], accountId = [], date = 0, description = js ''card purchase'',
     amount = binary64 a, type = Expense, category = Entertainment, isRecurring = False,
     merchantName = Some m, location = None, txNotes = None\<rparr>"

definition payment :: "jsstring option \<Rightarrow> jsstring \<Rightarrow> rat \<Rightarrow> Transaction" where
  "payment m d a = \<lparr>txId = [], accountId = [], date = 0, description = d,
     amount = binary64 a, type = Expense, category = Other, isRecurring = False,
     merchantName = m, location = None, txNotes = None\<rparr>"

section \<open>CSV import\<close>

definition daysInMonth :: "int \<Rightarrow> int \<Rightarrow> int" where
  "daysInMonth year monthIndex = getDate (makeDate year (monthIndex + 1) 0)"

text \<open>
  \<open>new Date(string)\<close> is the engine's own parser: ECMAScript fixes it on the ISO
  format only and leaves every other string to the implementation. The import functions
  take it as the parameter \<open>newDate\<close> (\<open>None\<close> for an invalid date). \<open>isoDateParse\<close>
  is one such parser, used in the examples: it accepts the date-only ISO form
  \<open>YYYY-MM-DD\<close>, read as midnight UTC, and nothing else.
\<close>

definition isoDateParse :: "jsstring \<Rightarrow> timeValue option" where
  "isoDateParse s =
     (if length s = 10 \<and> list_all isDigit (take 4 s) \<and> s ! 4 = 0x2D \<and>
         list_all isDigit (take 2 (drop 5 s)) \<and> s ! 7 = 0x2D \<and> list_all isDigit (drop 8 s)
      then
        (let y = int (digitsValue (take 4 s));
             m = int (digitsValue (take 2 (drop 5 s)));
             d = int (digitsValue (drop 8 s))
         in if 1 \<le> m \<and> m \<le> 12 \<and> 1 \<le> d \<and> d \<le> daysInMonth y (m - 1)
            then Some (daysFromCivil y m d * msPerDay) else None)
      else None)"

text \<open>
  A non-negative integer in a template literal (\<open>`${i + 1}`\<close>, \<open>`${Date.now()}`\<close>):
  its decimal digits.
\<close>

function showDecimal :: "int \<Rightarrow> jsstring" where
  "showDecimal n =
     (if n < 10 then [0x30 + of_int n] else showDecimal (n div 10) @ [0x30 + of_int (n mod 10)])"
  by pat_completeness auto
termination
  by (relation "measure nat") auto

declare showDecimal.simps [simp del]

definition showInt :: "int \<Rightarrow> jsstring" where
  "showInt i = (if i < 0 then 0x2D # showDecimal (- i) else showDecimal i)"

definition showNat :: "nat \<Rightarrow> jsstring" where
  "showNat n = showDecimal (int n)"

text \<open>\<open>s.split(sep)\<close> for a separator of one code unit.\<close>

fun splitOn :: "16 word \<Rightarrow> jsstring \<Rightarrow> jsstring list" where
  "splitOn sep [] = [[]]"
| "splitOn sep (c # cs) =
     (if c = sep then [] # splitOn sep cs
      else (case splitOn sep cs of [] \<Rightarrow> [[c]] | p # ps \<Rightarrow> (c # p) # ps))"

text \<open>
  The four regular expressions of \<open>parseDate\<close>, each three groups of digits with a
  separator (\<open>/\<close> or \<open>-\<close>) and bounds on the number of digits of each group. As no group
  can hold the separator, a string matches when it splits at the separator into exactly
  three groups of digits of the right lengths.
\<close>

definition digitGroup :: "nat \<Rightarrow> nat \<Rightarrow> jsstring \<Rightarrow> bool" where
  "digitGroup lo hi p = (list_all isDigit p \<and> lo \<le> length p \<and> length p \<le> hi)"

definition matchFormat ::
  "16 word \<Rightarrow> (nat \<times> nat) \<Rightarrow> (nat \<times> nat) \<Rightarrow> (nat \<times> nat) \<Rightarrow> jsstring \<Rightarrow> (jsstring \<times> jsstring \<times> jsstring) option" where
  "matchFormat sep r1 r2 r3 s =
     (case splitOn sep s of
        [p1, p2, p3] \<Rightarrow>
          if digitGroup (fst r1) (snd r1) p1 \<and> digitGroup (fst r2) (snd r2) p2 \<and>
             digitGroup (fst r3) (snd r3) p3
          then Some (p1, p2, p3) else None
      | _ \<Rightarrow> None)"

definition dateFormats :: "(jsstring \<Rightarrow> (jsstring \<times> jsstring \<times> jsstring) option) list" where
  "dateFormats =
     [matchFormat 0x2F (1, 2) (1, 2) (4, 4),
      matchFormat 0x2F (1, 2) (1, 2) (4, 4),
      matchFormat 0x2D (4, 4) (1, 2) (1, 2),
      matchFormat 0x2D (1, 2) (1, 2) (4, 4)]"

fun tryFormats ::
  "(jsstring \<Rightarrow> timeValue option) \<Rightarrow> (jsstring \<Rightarrow> (jsstring \<times> jsstring \<times> jsstring) option) list \<Rightarrow>
   jsstring \<Rightarrow> timeValue option" where
  "tryFormats newDate [] cleaned = None"
| "tryFormats newDate (format # formats) cleaned =
     (case format cleaned of
        None \<Rightarrow> tryFormats newDate formats cleaned
      | Some (p1, p2, p3) \<Rightarrow>
          (case newDate (p1 @ js ''/'' @ p2 @ js ''/'' @ p3) of
             Some d \<Rightarrow> Some d
           | None \<Rightarrow> tryFormats newDate formats cleaned))"

definition parseDate :: "(jsstring \<Rightarrow> timeValue option) \<Rightarrow> jsstring \<Rightarrow> timeValue option" where
  "parseDate newDate dateStr =
     (let cleaned = trim dateStr in
      case newDate cleaned of
        Some directDate \<Rightarrow> Some directDate
      | None \<Rightarrow> tryFormats newDate dateFormats cleaned)"

text \<open>
  The row object of \<open>parseTransaction\<close>: \<open>row[header] = values[i] || ''\<close> for every
  header, a later header of the same name overwriting an earlier one. \<open>row[col]\<close> is
  \<open>undefined\<close> (\<open>None\<close>) when no header is \<open>col\<close>; the columns looked up are those of
  the bank patterns, none of which names a property of \<open>Object.prototype\<close>.
\<close>

definition valueAt :: "jsstring list \<Rightarrow> nat \<Rightarrow> jsstring" where
  "valueAt values i = (if i < length values then values ! i else [])"

definition rowOf :: "jsstring list \<Rightarrow> jsstring list \<Rightarrow> (jsstring \<rightharpoonup> jsstring)" where
  "rowOf headers values =
     foldl (\<lambda>row (header, i). row(header \<mapsto> valueAt values i)) Map.empty
       (zip headers [0 ..< length headers])"

fun extractDate ::
  "(jsstring \<Rightarrow> timeValue option) \<Rightarrow> (jsstring \<rightharpoonup> jsstring) \<Rightarrow> jsstring list \<Rightarrow> timeValue option" where
  "extractDate newDate row [] = None"
| "extractDate newDate row (col # cols) =
     (case row col of
        None \<Rightarrow> extractDate newDate row cols
      | Some v \<Rightarrow>
          if v = [] then extractDate newDate row cols
          else (case parseDate newDate v of
                  Some d \<Rightarrow> Some d
                | None \<Rightarrow> extractDate newDate row cols))"

fun extractDescription :: "(jsstring \<rightharpoonup> jsstring) \<Rightarrow> jsstring list \<Rightarrow> jsstring" where
  "extractDescription row [] = []"
| "extractDescription row (col # cols) =
     (case row col of
        None \<Rightarrow> extractDescription row cols
      | Some v \<Rightarrow> if v \<noteq> [] \<and> trim v \<noteq> [] then trim v else extractDescription row cols)"

definition columnAt :: "jsstring list \<Rightarrow> nat \<Rightarrow> jsstring" where
  "columnAt cols i = (if i < length cols then cols ! i else js ''undefined'')"

definition rowValue :: "(jsstring \<rightharpoonup> jsstring) \<Rightarrow> jsstring \<Rightarrow> jsstring" where
  "rowValue row col = (case row col of None \<Rightarrow> [] | Some v \<Rightarrow> v)"

fun jsAbs :: "jsnum \<Rightarrow> jsnum" where
  "jsAbs (Fin a) = Fin \<bar>a\<bar>"
| "jsAbs NaN = NaN"
| "jsAbs x = PosInf"

definition extractAmount ::
  "(jsstring \<rightharpoonup> jsstring) \<Rightarrow> jsstring list \<Rightarrow> jsstring option \<Rightarrow> jsnum \<times> TransactionType" where
  "extractAmount row amountCols typeCol =
     (if (case typeCol of None \<Rightarrow> False | Some tc \<Rightarrow> tc \<noteq> [] \<and> rowValue row tc \<noteq> [])
      then
        (let typeValue = toLowerCase (rowValue row (the typeCol));
             isDebit = (includesStr typeValue (js ''debit'') \<or>
                        includesStr typeValue (js ''withdrawal'') \<or>
                        includesStr typeValue (js ''payment''));
             amt = parseAmount (rowValue row (columnAt amountCols 0))
         in (amt, if isDebit then Expense else Income))
      else if length amountCols > 1 then
        (let debit = parseAmount (rowValue row (columnAt amountCols 0));
             credit = parseAmount (rowValue row (columnAt amountCols 1))
         in if jsLt (Fin 0) debit then (debit, Expense)
            else if jsLt (Fin 0) credit then (credit, Income)
            else (Fin 0, Expense))
      else
        (let amt = parseAmount (rowValue row (columnAt amountCols 0))
         in (jsAbs amt, if jsLt amt (Fin 0) then Expense else Income)))"

text \<open>
  \<open>extractMerchantName\<close>. The first expression, with the flag \<open>i\<close>, removes one
  leading token (compared without case on ASCII letters) and the white space after it;
  the second removes every maximal run of four or more digits; the third every \<open>#\<close>
  with the digits after it. \<open>split(/\s+/)\<close> cuts at every maximal run of white space.
\<close>

definition upperAscii :: "16 word \<Rightarrow> 16 word" where
  "upperAscii c = (if 0x61 \<le> c \<and> c \<le> 0x7A then c - 0x20 else c)"

fun startsWithIgnoreCase :: "jsstring \<Rightarrow> jsstring \<Rightarrow> bool" where
  "startsWithIgnoreCase xs [] = True"
| "startsWithIgnoreCase [] (y # ys) = False"
| "startsWithIgnoreCase (x # xs) (y # ys) = (upperAscii x = upperAscii y \<and> startsWithIgnoreCase xs ys)"

definition leadingTokens :: "string list" where
  "leadingTokens =
     [''DEBIT'', ''CREDIT'', ''ACH'', ''CHECK'', ''TRANSFER'', ''PAYMENT'', ''WITHDRAWAL'', ''DEPOSIT'']"

fun stripLeadingToken :: "string list \<Rightarrow> jsstring \<Rightarrow> jsstring" where
  "stripLeadingToken [] s = s"
| "stripLeadingToken (tok # toks) s =
     (if startsWithIgnoreCase s (js tok) then dropWhile isWhiteSpace (drop (length tok) s)
      else stripLeadingToken toks s)"

fun stripLongNumbers :: "jsstring \<Rightarrow> jsstring \<Rightarrow> jsstring" where
  "stripLongNumbers run [] = (if length run \<ge> 4 then [] else run)"
| "stripLongNumbers run (c # cs) =
     (if isDigit c then stripLongNumbers (run @ [c]) cs
      else (if length run \<ge> 4 then [] else run) @ c # stripLongNumbers [] cs)"

fun stripReferences :: "bool \<Rightarrow> jsstring \<Rightarrow> jsstring" where
  "stripReferences inNumber [] = []"
| "stripReferences inNumber (c # cs) =
     (if inNumber \<and> isDigit c then stripReferences True cs
      else if c = 0x23 \<and> (case cs of [] \<Rightarrow> False | d # ds \<Rightarrow> isDigit d) then stripReferences True cs
      else c # stripReferences False cs)"

fun splitWhiteSpace :: "jsstring \<Rightarrow> jsstring \<Rightarrow> jsstring list" where
  "splitWhiteSpace current [] = [current]"
| "splitWhiteSpace current (c # cs) =
     (if isWhiteSpace c then
        (case cs of
           [] \<Rightarrow> current # splitWhiteSpace [] cs
         | d # ds \<Rightarrow> if isWhiteSpace d then splitWhiteSpace current cs
                     else current # splitWhiteSpace [] cs)
      else splitWhiteSpace (current @ [c]) cs)"

definition extractMerchantName :: "jsstring \<Rightarrow> jsstring" where
  "extractMerchantName desc =
     (let cleaned = trim (stripReferences False (stripLongNumbers [] (stripLeadingToken leadingTokens desc)));
          words = splitWhiteSpace [] cleaned
      in join (js '' '') (take 3 words))"

text \<open>
  \<open>parseTransaction\<close>: \<open>Inl message\<close> is \<open>throw new Error(message)\<close>, \<open>Inr None\<close> is
  \<open>return null\<close>. \<open>now\<close> is the reading of \<open>Date.now()\<close>.
\<close>

definition parseTransaction ::
  "(jsstring \<Rightarrow> timeValue option) \<Rightarrow> timeValue \<Rightarrow> jsstring list \<Rightarrow> jsstring list \<Rightarrow> BankPattern \<Rightarrow> nat \<Rightarrow>
   jsstring + Transaction option" where
  "parseTransaction newDate now headers values pattern lineNumber =
     (let row = rowOf headers values in
      case extractDate newDate row (dateColumns pattern) of
        None \<Rightarrow> Inl (js ''Fecha no encontrada o inv'' @ [0xE1] @ js ''lida'')
      | Some date' \<Rightarrow>
          (let description' = extractDescription row (descriptionColumns pattern) in
           if description' = [] then Inl (js ''Descripci'' @ [0xF3] @ js ''n no encontrada'')
           else
             (case extractAmount row (amountColumns pattern) (typeColumn pattern) of
                (amount', type') \<Rightarrow>
                  if amount' = Fin 0 then Inr None
                  else Inr (Some \<lparr>txId = js ''imported-'' @ showInt now @ js ''-'' @ showNat lineNumber,
                    accountId = [],
                    date = date',
                    description = description',
                    amount = jsAbs amount',
                    type = type',
                    category = Other,
                    isRecurring = False,
                    merchantName = Some (extractMerchantName description'),
                    location = None,
                    txNotes = None\<rparr>))))"

definition detectBankPattern :: "jsstring list \<Rightarrow> jsstring \<Rightarrow> BankPattern option" where
  "detectBankPattern headers bankName =
     (let normalizedName = filter (\<lambda>c. \<not> isWhiteSpace c) (toLowerCase bankName) in
      if includesStr normalizedName (js ''bankofamerica'') \<or> includesStr normalizedName (js ''boa'')
      then Some bankOfAmerica
      else if includesStr normalizedName (js ''chase'') then Some chase
      else if includesStr normalizedName (js ''wellsfargo'') \<or> includesStr normalizedName (js ''wells'')
      then Some wellsFargo
      else if includesStr normalizedName (js ''citi'') then Some citi
      else if includesStr normalizedName (js ''capitalone'') \<or> includesStr normalizedName (js ''capital'')
      then Some capitalOne
      else if includesStr normalizedName (js ''amex'') \<or> includesStr normalizedName (js ''americanexpress'')
      then Some amex
      else autoDetectBank headers)"

text \<open>
  \<open>importCSV\<close>, as the value its promise resolves to. \<open>accountInfo\<close> is never set by
  the source and is left out. \<open>clock i\<close> is the reading of \<open>Date.now()\<close> while the
  line \<open>i\<close> is parsed. The loop over the lines catches what \<open>parseTransaction\<close> throws
  and goes on with the next line.
\<close>

record ImportResult =
  transactions :: "Transaction list"
  errors :: "jsstring list"

fun importRows ::
  "(jsstring \<Rightarrow> timeValue option) \<Rightarrow> (nat \<Rightarrow> timeValue) \<Rightarrow> jsstring list \<Rightarrow> BankPattern \<Rightarrow> nat \<Rightarrow>
   jsstring list \<Rightarrow> ImportResult \<Rightarrow> ImportResult" where
  "importRows newDate clock headers bankPattern i [] acc = acc"
| "importRows newDate clock headers bankPattern i (line # rest) acc =
     (let values = parseCSVLine line in
      if length values < 2 then importRows newDate clock headers bankPattern (Suc i) rest acc
      else
        (case parseTransaction newDate (clock i) headers values bankPattern i of
           Inr (Some transaction) \<Rightarrow>
             importRows newDate clock headers bankPattern (Suc i) rest
               (acc\<lparr>transactions := transactions acc @ [transaction]\<rparr>)
         | Inr None \<Rightarrow> importRows newDate clock headers bankPattern (Suc i) rest acc
         | Inl message \<Rightarrow>
             importRows newDate clock headers bankPattern (Suc i) rest
               (acc\<lparr>errors := errors acc @ [js ''L'' @ [0xED] @ js ''nea '' @ showNat (i + 1) @ js '': '' @ message]\<rparr>)))"

definition importCSV ::
  "(jsstring \<Rightarrow> timeValue option) \<Rightarrow> (nat \<Rightarrow> timeValue) \<Rightarrow> jsstring \<Rightarrow> jsstring option \<Rightarrow> ImportResult" where
  "importCSV newDate clock fileContent bankName =
     (let lines = filter (\<lambda>line. trim line \<noteq> []) (splitOn 0x0A fileContent) in
      if length lines < 2
      then \<lparr>transactions = [], errors = [js ''Archivo vac'' @ [0xED] @ js ''o o sin datos'']\<rparr>
      else
        (let headers = parseCSVLine (hd lines);
             bankPattern = (case bankName of
                 None \<Rightarrow> autoDetectBank headers
               | Some b \<Rightarrow> if b = [] then autoDetectBank headers else detectBankPattern headers b)
         in case bankPattern of
              None \<Rightarrow> \<lparr>transactions = [], errors =
                [js ''Formato de banco no reconocido. Por favor selecciona el banco manualmente.'']\<rparr>
            | Some p \<Rightarrow>
                importRows newDate clock headers p 1 (tl lines) \<lparr>transactions = [], errors = []\<rparr>))"

text \<open>A clock and a header row for the examples.\<close>

definition fixedClock :: "nat \<Rightarrow> timeValue" where
  "fixedClock i = 1700000000000 + int i"

definition chaseHeader :: jsstring where
  "chaseHeader = js ''Posting Date,Description,Type,Amount''"

section \<open>The date library\<close>

text \<open>
  The functions the analysis takes from the library date-fns, on the calendar above.
  \<open>addMonths\<close> keeps the time of day and the day of the month, or takes the last day
  of the target month when that month is shorter; \<open>subMonths\<close> adds the negated
  amount. \<open>format(date, 'yyyy-MM')\<close> writes the year of the era on four digits at least
  and the month on two.
\<close>

definition startOfMonth :: "timeValue \<Rightarrow> timeValue" where
  "startOfMonth t = makeDate (getFullYear t) (getMonth t) 1"

definition addMonths :: "timeValue \<Rightarrow> int \<Rightarrow> timeValue" where
  "addMonths t n =
     (if n = 0 then t
      else
        (let dayOfMonth = getDate t;
             timeOfDay = t mod msPerDay;
             endOfDesiredMonth = makeDate (getFullYear t) (getMonth t + n + 1) 0 + timeOfDay
         in if dayOfMonth \<ge> getDate endOfDesiredMonth then endOfDesiredMonth
            else makeDate (getFullYear endOfDesiredMonth) (getMonth endOfDesiredMonth) dayOfMonth
                   + timeOfDay))"

definition subMonths :: "timeValue \<Rightarrow> int \<Rightarrow> timeValue" where
  "subMonths t n = addMonths t (- n)"

definition addLeadingZeros :: "int \<Rightarrow> nat \<Rightarrow> jsstring" where
  "addLeadingZeros n targetLength =
     replicate (targetLength - length (showDecimal n)) 0x30 @ showDecimal n"

definition formatYearMonth :: "timeValue \<Rightarrow> jsstring" where
  "formatYearMonth t =
     addLeadingZeros (if getFullYear t > 0 then getFullYear t else 1 - getFullYear t) 4
     @ js ''-'' @ addLeadingZeros (getMonth t + 1) 2"

section \<open>Insights\<close>

datatype InsightType = Warning | Suggestion | Achievement

datatype Priority = Low | Medium | High

text \<open>
  The fields \<open>id\<close>, \<open>type\<close>, \<open>description\<close> and \<open>category\<close> of a \<open>FinancialInsight\<close>
  carry the prefix \<open>insight\<close> here, the record of transactions having fields of the same
  names.
\<close>

record FinancialInsight =
  insightId :: jsstring
  insightType :: InsightType
  title :: jsstring
  insightDescription :: jsstring
  insightCategory :: "TransactionCategory option"
  potentialSavings :: "jsnum option"
  actionable :: bool
  priority :: Priority
  createdAt :: timeValue

text \<open>
  The system clock. A call reads it with \<open>new Date()\<close> and \<open>Date.now()\<close>, several times;
  \<open>clk j\<close> is the reading number \<open>j\<close>. A computation that reads the clock takes the
  clock and the number of readings made so far, and returns its result with the new
  number of readings.
\<close>

type_synonym clock = "nat \<Rightarrow> timeValue"

type_synonym 'a clocked = "clock \<Rightarrow> nat \<Rightarrow> 'a \<times> nat"

definition ret :: "'a \<Rightarrow> 'a clocked" where
  "ret x = (\<lambda>clk k. (x, k))"

definition readClock :: "timeValue clocked" where
  "readClock = (\<lambda>clk k. (clk k, Suc k))"

definition andThen :: "'a clocked \<Rightarrow> ('a \<Rightarrow> 'b clocked) \<Rightarrow> 'b clocked" where
  "andThen m f = (\<lambda>clk k. case m clk k of (x, k') \<Rightarrow> f x clk k')"

text \<open>
  \<open>xs.forEach(body)\<close> where the body pushes insights into the array of the caller: the
  pushes of all the rounds, in order.
\<close>

fun forEach :: "'a list \<Rightarrow> ('a \<Rightarrow> 'b list clocked) \<Rightarrow> 'b list clocked" where
  "forEach [] body = ret []"
| "forEach (x # xs) body =
     andThen (body x) (\<lambda>pushed. andThen (forEach xs body) (\<lambda>later. ret (pushed @ later)))"

text \<open>
  \<open>Number.prototype.toFixed\<close> for a number below 10^21 in magnitude: the nearest
  multiple of 10^-digits, the larger one on a tie, written with that many digits after
  the point; a negative number gets a minus sign in front of the text of its absolute
  value.
\<close>

definition fixedDigits :: "nat \<Rightarrow> rat \<Rightarrow> jsstring" where
  "fixedDigits digits x =
     (let n = \<lfloor>x * 10 ^ digits + 1 / 2\<rfloor>;
          m = replicate (Suc digits - length (showDecimal n)) 0x30 @ showDecimal n
      in if digits = 0 then m
         else take (length m - digits) m @ js ''.'' @ drop (length m - digits) m)"

fun toFixed :: "jsnum \<Rightarrow> nat \<Rightarrow> jsstring" where
  "toFixed NaN digits = js ''NaN''"
| "toFixed PosInf digits = js ''Infinity''"
| "toFixed NegInf digits = js ''-Infinity''"
| "toFixed (Fin x) digits =
     (if x < 0 then js ''-'' @ fixedDigits digits (- x) else fixedDigits digits x)"

abbreviation aacute :: jsstring where "aacute \<equiv> [0xE1]"
abbreviation eacute :: jsstring where "eacute \<equiv> [0xE9]"
abbreviation iacute :: jsstring where "iacute \<equiv> [0xED]"
abbreviation oacute :: jsstring where "oacute \<equiv> [0xF3]"
abbreviation ntilde :: jsstring where "ntilde \<equiv> [0xF1]"
abbreviation iquest :: jsstring where "iquest \<equiv> [0xBF]"
abbreviation iexcl :: jsstring where "iexcl \<equiv> [0xA1]"

fun categoryString :: "TransactionCategory \<Rightarrow> jsstring" where
  "categoryString Food = js ''food''"
| "categoryString Transportation = js ''transportation''"
| "categoryString Entertainment = js ''entertainment''"
| "categoryString Utilities = js ''utilities''"
| "categoryString Rent = js ''rent''"
| "categoryString Healthcare = js ''healthcare''"
| "categoryString Shopping = js ''shopping''"
| "categoryString Education = js ''education''"
| "categoryString Salary = js ''salary''"
| "categoryString Investment = js ''investment''"
| "categoryString Other = js ''other''"

fun getCategoryName :: "TransactionCategory \<Rightarrow> jsstring" where
  "getCategoryName Food = js ''comida''"
| "getCategoryName Transportation = js ''transporte''"
| "getCategoryName Entertainment = js ''entretenimiento''"
| "getCategoryName Utilities = js ''servicios''"
| "getCategoryName Rent = js ''renta''"
| "getCategoryName Healthcare = js ''salud''"
| "getCategoryName Shopping = js ''compras''"
| "getCategoryName Education = js ''educaci'' @ oacute @ js ''n''"
| "getCategoryName Salary = js ''salario''"
| "getCategoryName Investment = js ''inversi'' @ oacute @ js ''n''"
| "getCategoryName Other = js ''otros''"

definition totalAmount :: "Transaction list \<Rightarrow> jsnum" where
  "totalAmount txs = sumAmounts (map amount txs)"

definition smallFoodInsight :: "timeValue \<Rightarrow> Transaction list \<Rightarrow> FinancialInsight list clocked" where
  "smallFoodInsight now categoryExpenses =
     (let smallTransactions = filter (\<lambda>t. jsLt (amount t) (Fin 15)) categoryExpenses in
      if length smallTransactions > 15 then
        (let smallTotal = totalAmount smallTransactions in
         andThen readClock (\<lambda>stamp. ret
           [\<lparr>insightId = js ''insight-small-food-'' @ showInt stamp,
             insightType = Suggestion,
             title = js ''Gastos peque'' @ ntilde @ js ''os frecuentes en comida'',
             insightDescription = js ''Has hecho '' @ showNat (length smallTransactions) @
               js '' compras peque'' @ ntilde @ js ''as de comida este mes ($'' @ toFixed smallTotal 2 @
               js ''). Considera preparar comidas en casa o comprar caf'' @ eacute @ js '' en termo.'',
             insightCategory = Some Food,
             potentialSavings = Some (jsMul smallTotal (Fin (6 / 10))),
             actionable = True,
             priority = Medium,
             createdAt = now\<rparr>]))
      else ret [])"

definition subscriptionInsights :: "timeValue \<Rightarrow> Transaction list \<Rightarrow> FinancialInsight list clocked" where
  "subscriptionInsights now categoryExpenses =
     forEach (identifyRecurringTransactions categoryExpenses) (\<lambda>pattern.
       andThen readClock (\<lambda>stamp. ret
         [\<lparr>insightId = js ''insight-subscription-'' @ showInt stamp @ js ''-'' @ rMerchantName pattern,
           insightType = Suggestion,
           title = js ''Posible suscripci'' @ oacute @ js ''n no utilizada'',
           insightDescription = js ''Tienes un cargo recurrente de $'' @ toFixed (rAmount pattern) 2 @
             js '' en '' @ rMerchantName pattern @ js ''. '' @ iquest @ js ''Realmente lo est'' @ aacute @
             js ''s usando?'',
           insightCategory = Some Entertainment,
           potentialSavings = Some (jsMul (rAmount pattern) (Fin 12)),
           actionable = True,
           priority = High,
           createdAt = now\<rparr>]))"

definition excessiveShoppingInsight :: "timeValue \<Rightarrow> Transaction list \<Rightarrow> FinancialInsight list clocked" where
  "excessiveShoppingInsight now categoryExpenses =
     (let total = totalAmount categoryExpenses in
      if jsLt (Fin 500) total then
        andThen readClock (\<lambda>stamp. ret
          [\<lparr>insightId = js ''insight-excessive-shopping-'' @ showInt stamp,
            insightType = Warning,
            title = js ''Gasto alto en compras'',
            insightDescription = js ''Has gastado $'' @ toFixed total 2 @
              js '' en compras este mes. Considera establecer un presupuesto mensual.'',
            insightCategory = Some Shopping,
            potentialSavings = Some (jsMul total (Fin (3 / 10))),
            actionable = True,
            priority = High,
            createdAt = now\<rparr>])
      else ret [])"

definition detectUnnecessaryExpenses :: "Transaction list \<Rightarrow> FinancialInsight list clocked" where
  "detectUnnecessaryExpenses txs =
     andThen readClock (\<lambda>now.
       let lastMonth = subMonths now 1 in
       forEach [Entertainment, Shopping, Food] (\<lambda>c.
         let categoryExpenses =
               filter (\<lambda>t. type t = Expense \<and> category t = c \<and> date t \<ge> lastMonth) txs
         in if categoryExpenses = [] then ret []
            else
              andThen (if c = Food then smallFoodInsight now categoryExpenses else ret [])
                (\<lambda>food.
              andThen (if c = Entertainment then subscriptionInsights now categoryExpenses else ret [])
                (\<lambda>subscriptions.
              andThen (if c = Shopping then excessiveShoppingInsight now categoryExpenses else ret [])
                (\<lambda>shopping. ret (food @ subscriptions @ shopping))))))"

definition detectRecurringExpenses :: "Transaction list \<Rightarrow> FinancialInsight list clocked" where
  "detectRecurringExpenses txs =
     (let recurring = identifyRecurringTransactions (filter (\<lambda>t. type t = Expense) txs);
          totalRecurring = sumAmounts (map rAmount recurring)
      in if jsLt (Fin 0) totalRecurring then
           andThen readClock (\<lambda>stamp. andThen readClock (\<lambda>created. ret
             [\<lparr>insightId = js ''insight-recurring-'' @ showInt stamp,
               insightType = Suggestion,
               title = js ''Gastos recurrentes identificados'',
               insightDescription = js ''Tienes $'' @ toFixed totalRecurring 2 @
                 js '' en gastos recurrentes mensuales. Revisa si todos son necesarios.'',
               insightCategory = None,
               potentialSavings = None,
               actionable = True,
               priority = Medium,
               createdAt = created\<rparr>]))
         else ret [])"

definition detectUnusualSpending :: "Transaction list \<Rightarrow> FinancialInsight list clocked" where
  "detectUnusualSpending txs =
     andThen readClock (\<lambda>now.
       let thisMonth = startOfMonth now;
           lastMonth = startOfMonth (subMonths now 1);
           twoMonthsAgo = startOfMonth (subMonths now 2)
       in forEach [Food, Transportation, Entertainment, Utilities, Shopping, Healthcare] (\<lambda>c.
         let thisMonthExpenses =
               filter (\<lambda>t. type t = Expense \<and> category t = c \<and> date t \<ge> thisMonth) txs;
             lastMonthExpenses =
               filter (\<lambda>t. type t = Expense \<and> category t = c \<and> date t \<ge> lastMonth \<and>
                            date t < thisMonth) txs;
             twoMonthsExpenses =
               filter (\<lambda>t. type t = Expense \<and> category t = c \<and> date t \<ge> twoMonthsAgo \<and>
                            date t < lastMonth) txs;
             thisMonthTotal = totalAmount thisMonthExpenses;
             lastMonthTotal = totalAmount lastMonthExpenses;
             twoMonthsTotal = totalAmount twoMonthsExpenses;
             average = jsDiv (jsAdd lastMonthTotal twoMonthsTotal) (Fin 2)
         in if jsLt (jsMul average (Fin (3 / 2))) thisMonthTotal \<and> jsLt (Fin 0) average then
              (let increase = jsSub thisMonthTotal average in
               andThen readClock (\<lambda>stamp. ret
                 [\<lparr>insightId = js ''insight-unusual-'' @ categoryString c @ js ''-'' @ showInt stamp,
                   insightType = Warning,
                   title = js ''Gasto elevado en '' @ getCategoryName c,
                   insightDescription = js ''Has gastado $'' @ toFixed thisMonthTotal 2 @ js '' en '' @
                     getCategoryName c @ js '' este mes, $'' @ toFixed increase 2 @ js '' m'' @ aacute @
                     js ''s que tu promedio.'',
                   insightCategory = Some c,
                   potentialSavings = None,
                   actionable = True,
                   priority = High,
                   createdAt = now\<rparr>]))
            else ret []))"

definition suggestBudgetOptimizations :: "Transaction list \<Rightarrow> FinancialInsight list clocked" where
  "suggestBudgetOptimizations txs =
     andThen readClock (\<lambda>now.
       let thisMonth = startOfMonth now;
           monthExpenses = filter (\<lambda>t. type t = Expense \<and> date t \<ge> thisMonth) txs;
           monthIncome = filter (\<lambda>t. type t = Income \<and> date t \<ge> thisMonth) txs;
           totalExpenses = totalAmount monthExpenses;
           totalIncome = totalAmount monthIncome
       in
       andThen
         (if jsLt (Fin 0) totalIncome \<and> jsLt (Fin (9 / 10)) (jsDiv totalExpenses totalIncome) then
            andThen readClock (\<lambda>stamp. ret
              [\<lparr>insightId = js ''insight-high-spending-'' @ showInt stamp,
                insightType = Warning,
                title = js ''Nivel de gastos muy alto'',
                insightDescription = js ''Est'' @ aacute @ js ''s gastando '' @
                  toFixed (jsMul (jsDiv totalExpenses totalIncome) (Fin 100)) 0 @
                  js ''% de tus ingresos. Intenta ahorrar al menos 10-20%.'',
                insightCategory = None,
                potentialSavings = None,
                actionable = True,
                priority = High,
                createdAt = now\<rparr>])
          else ret [])
         (\<lambda>highSpending.
       andThen
         (if jsLt (Fin 0) totalIncome then
            (let needs = jsMul totalIncome (Fin (1 / 2));
                 wants = jsMul totalIncome (Fin (3 / 10));
                 savings = jsMul totalIncome (Fin (2 / 10))
             in andThen readClock (\<lambda>stamp. ret
              [\<lparr>insightId = js ''insight-budget-rule-'' @ showInt stamp,
                insightType = Suggestion,
                title = js ''Aplica la regla 50/30/20'',
                insightDescription = js ''Para tus ingresos de $'' @ toFixed totalIncome 2 @
                  js '', intenta: $'' @ toFixed needs 2 @ js '' en necesidades, $'' @ toFixed wants 2 @
                  js '' en deseos, y $'' @ toFixed savings 2 @ js '' en ahorros.'',
                insightCategory = None,
                potentialSavings = None,
                actionable = True,
                priority = Medium,
                createdAt = now\<rparr>]))
          else ret [])
         (\<lambda>budgetRule. ret (highSpending @ budgetRule))))"

text \<open>
  \<open>groupByMonth\<close>: the object \<open>grouped\<close> keeps its keys in the order of their first
  assignment. \<open>grouped[monthKey] || 0\<close> is 0 when the key is new, and also when the sum
  so far is 0 or \<open>NaN\<close>.
\<close>

definition orZero :: "jsnum option \<Rightarrow> jsnum" where
  "orZero v = (case v of None \<Rightarrow> Fin 0 | Some x \<Rightarrow> if x = NaN \<or> x = Fin 0 then Fin 0 else x)"

definition groupByMonth :: "Transaction list \<Rightarrow> (jsstring \<times> jsnum) list" where
  "groupByMonth txs =
     foldl (\<lambda>grouped t.
        let monthKey = formatYearMonth (date t)
        in mapSet monthKey (jsAdd (orZero (mapGet grouped monthKey)) (amount t)) grouped) [] txs"

definition analyzeIncomeOpportunities :: "Transaction list \<Rightarrow> FinancialInsight list clocked" where
  "analyzeIncomeOpportunities txs =
     andThen readClock (\<lambda>now.
       let lastThreeMonths = subMonths now 3;
           incomeTransactions = filter (\<lambda>t. type t = Income \<and> date t \<ge> lastThreeMonths) txs
       in if incomeTransactions = [] then ret []
          else
            (let incomeValues = map snd (groupByMonth incomeTransactions) in
             andThen
               (if length incomeValues \<ge> 2 then
                  (let avgIncome = jsDiv (sumAmounts incomeValues) (Fin (of_nat (length incomeValues)));
                       variance = jsDiv
                         (foldl (\<lambda>sum val. jsAdd sum (jsMul (jsSub val avgIncome) (jsSub val avgIncome)))
                            (Fin 0) incomeValues)
                         (Fin (of_nat (length incomeValues)))
                   in if jsLt (jsMul avgIncome (Fin (3 / 10))) variance then
                        andThen readClock (\<lambda>stamp. ret
                          [\<lparr>insightId = js ''insight-income-variability-'' @ showInt stamp,
                            insightType = Suggestion,
                            title = js ''Ingresos variables detectados'',
                            insightDescription = js ''Tus ingresos var'' @ iacute @
                              js ''an significativamente. Considera buscar fuentes de ingreso m'' @ aacute @
                              js ''s estables o crear un fondo de emergencia.'',
                            insightCategory = None,
                            potentialSavings = None,
                            actionable = True,
                            priority = Medium,
                            createdAt = now\<rparr>])
                      else ret [])
                else ret [])
               (\<lambda>variability.
             andThen
               (if length incomeTransactions < 5 then
                  andThen readClock (\<lambda>stamp. ret
                    [\<lparr>insightId = js ''insight-additional-income-'' @ showInt stamp,
                      insightType = Suggestion,
                      title = js ''Considera ingresos adicionales'',
                      insightDescription = js ''Podr'' @ iacute @ js ''as mejorar tu situaci'' @ oacute @
                        js ''n financiera con un trabajo freelance, venta de art'' @ iacute @
                        js ''culos no usados, o inversiones.'',
                      insightCategory = None,
                      potentialSavings = None,
                      actionable = True,
                      priority = Low,
                      createdAt = now\<rparr>])
                else ret [])
               (\<lambda>additional. ret (variability @ additional)))))"

definition detectIncomePatterns :: "Transaction list \<Rightarrow> FinancialInsight list clocked" where
  "detectIncomePatterns txs =
     andThen readClock (\<lambda>now.
       let lastThreeMonths = subMonths now 3;
           incomeTransactions = filter (\<lambda>t. type t = Income \<and> date t \<ge> lastThreeMonths) txs;
           sources = identifyRecurringTransactions incomeTransactions
       in if length sources > 0 then
            (let totalRecurring = sumAmounts (map rAmount sources) in
             andThen readClock (\<lambda>stamp. ret
               [\<lparr>insightId = js ''insight-recurring-income-'' @ showInt stamp,
                 insightType = Achievement,
                 title = js ''Ingresos recurrentes estables'',
                 insightDescription = js ''Tienes $'' @ toFixed totalRecurring 2 @
                   js '' en ingresos recurrentes mensuales. '' @ iexcl @ js ''Buen trabajo!'',
                 insightCategory = None,
                 potentialSavings = None,
                 actionable = False,
                 priority = Low,
                 createdAt = now\<rparr>]))
          else ret [])"

text \<open>
  \<open>Array.prototype.sort\<close> with a comparator. ECMAScript (2019 onwards) makes the sort
  stable, which fixes its result for a comparator that is a consistent order: the
  result is the one of insertion sort, an element going before the first element that
  does not compare below it.
\<close>

fun insertSorted :: "('a \<Rightarrow> 'a \<Rightarrow> int) \<Rightarrow> 'a \<Rightarrow> 'a list \<Rightarrow> 'a list" where
  "insertSorted cmp x [] = [x]"
| "insertSorted cmp x (y # ys) = (if cmp x y \<le> 0 then x # y # ys else y # insertSorted cmp x ys)"

definition arraySort :: "('a \<Rightarrow> 'a \<Rightarrow> int) \<Rightarrow> 'a list \<Rightarrow> 'a list" where
  "arraySort cmp xs = foldr (insertSorted cmp) xs []"

fun priorityOrder :: "Priority \<Rightarrow> int" where
  "priorityOrder High = 3"
| "priorityOrder Medium = 2"
| "priorityOrder Low = 1"

definition comparePriority :: "FinancialInsight \<Rightarrow> FinancialInsight \<Rightarrow> int" where
  "comparePriority a b = priorityOrder (priority b) - priorityOrder (priority a)"

text \<open>The insights of the six detectors in the order they are pushed, before the sort.\<close>

definition emittedInsights :: "Transaction list \<Rightarrow> FinancialInsight list clocked" where
  "emittedInsights txs =
     andThen (detectUnnecessaryExpenses txs) (\<lambda>i1.
     andThen (detectRecurringExpenses txs) (\<lambda>i2.
     andThen (detectUnusualSpending txs) (\<lambda>i3.
     andThen (suggestBudgetOptimizations txs) (\<lambda>i4.
     andThen (analyzeIncomeOpportunities txs) (\<lambda>i5.
     andThen (detectIncomePatterns txs) (\<lambda>i6.
     ret (i1 @ i2 @ i3 @ i4 @ i5 @ i6)))))))"

definition generateInsights :: "Transaction list \<Rightarrow> FinancialInsight list clocked" where
  "generateInsights txs =
     andThen (emittedInsights txs) (\<lambda>insights. ret (arraySort comparePriority insights))"

text \<open>Transactions for the examples.\<close>

definition incomeOf :: "timeValue \<Rightarrow> jsstring \<Rightarrow> rat \<Rightarrow> Transaction" where
  "incomeOf t source a = \<lparr>txId = [], accountId = [], date = t, description = js ''deposit'',
     amount = Fin a, type = Income, category = Salary, isRecurring = False,
     merchantName = Some source, location = None, txNotes = None\<rparr>"

definition expenseOf :: "timeValue \<Rightarrow> jsstring \<Rightarrow> TransactionCategory \<Rightarrow> rat \<Rightarrow> Transaction" where
  "expenseOf t merchant c a = \<lparr>txId = [], accountId = [], date = t, description = js ''card purchase'',
     amount = Fin a, type = Expense, category = c, isRecurring = False,
     merchantName = Some merchant, location = None, txNotes = None\<rparr>"

text \<open>
  For the examples: a clock whose readings are all the same instant, four insights of
  priorities low, high, medium, high, and a history of one salary payment.
\<close>

definition frozenClock :: "timeValue \<Rightarrow> clock" where
  "frozenClock t = (\<lambda>j. t)"

definition samplePriorities :: "FinancialInsight list" where
  "samplePriorities =
     map (\<lambda>(n, p). \<lparr>insightId = n, insightType = Suggestion, title = [], insightDescription = [],
            insightCategory = None, potentialSavings = None, actionable = True, priority = p,
            createdAt = 0\<rparr>)
       [(js ''a'', Low), (js ''b'', High), (js ''c'', Medium), (js ''d'', High)]"

definition sampleHistory :: "Transaction list" where
  "sampleHistory = [incomeOf 1699900000000 (js ''ACME'') 3000]"

text \<open>
  Two invocations on the same transactions at different instants. The detectors and the
  pattern functions compare the date of each transaction with bounds they compute from
  a reading of the clock: one month and three months before it, the start of its month
  and of the two months before, 30 days and 90 days before it. \<open>sameWindows txs r1 r2\<close>:
  every transaction of \<open>txs\<close> is on the same side of each of these bounds for the
  reading \<open>r1\<close> as for the reading \<open>r2\<close>. \<open>unstamped i\<close> is the insight \<open>i\<close> without
  what it takes from the clock, its id and its \<open>createdAt\<close>.
\<close>

definition sameSide :: "Transaction list \<Rightarrow> timeValue \<Rightarrow> timeValue \<Rightarrow> bool" where
  "sameSide txs b1 b2 = list_all (\<lambda>t. (b1 \<le> date t) = (b2 \<le> date t)) txs"

definition sameWindows :: "Transaction list \<Rightarrow> timeValue \<Rightarrow> timeValue \<Rightarrow> bool" where
  "sameWindows txs r1 r2 \<longleftrightarrow>
     sameSide txs (subMonths r1 1) (subMonths r2 1) \<and>
     sameSide txs (subMonths r1 3) (subMonths r2 3) \<and>
     sameSide txs (startOfMonth r1) (startOfMonth r2) \<and>
     sameSide txs (startOfMonth (subMonths r1 1)) (startOfMonth (subMonths r2 1)) \<and>
     sameSide txs (startOfMonth (subMonths r1 2)) (startOfMonth (subMonths r2 2)) \<and>
     sameSide txs (r1 - 30 * 24 * 60 * 60 * 1000) (r2 - 30 * 24 * 60 * 60 * 1000) \<and>
     sameSide txs (r1 - 90 * 24 * 60 * 60 * 1000) (r2 - 90 * 24 * 60 * 60 * 1000)"

definition unstamped :: "FinancialInsight \<Rightarrow> FinancialInsight" where
  "unstamped i = i\<lparr>insightId := [], createdAt := 0\<rparr>"

definition sameInsights :: "FinancialInsight list \<Rightarrow> FinancialInsight list \<Rightarrow> bool" where
  "sameInsights xs ys \<longleftrightarrow> map unstamped xs = map unstamped ys"

text \<open>
  Two computations are related by \<open>R\<close> under \<open>W\<close> when their results satisfy \<open>R\<close> on any
  two clocks of which every reading of the first and every reading of the second satisfy
  \<open>W\<close>, whatever the readings made before.
\<close>

definition related ::
  "(timeValue \<Rightarrow> timeValue \<Rightarrow> bool) \<Rightarrow> ('a \<Rightarrow> 'b \<Rightarrow> bool) \<Rightarrow> 'a clocked \<Rightarrow> 'b clocked \<Rightarrow> bool" where
  "related W R m1 m2 \<longleftrightarrow>
     (\<forall>clk1 clk2 k1 k2. (\<forall>j1 j2. W (clk1 j1) (clk2 j2)) \<longrightarrow> R (fst (m1 clk1 k1)) (fst (m2 clk2 k2)))"

section \<open>Patterns and the daily budget\<close>

text \<open>
  The analysis actions of the store read the transactions, the budgets and the income
  patterns of the state and write their result back; here they take what they read and
  return what they write. The fields of the patterns and of the budget that share a name
  with a field of another record carry a prefix.
\<close>

datatype Trend = Increasing | Decreasing | Stable

record SpendingPattern =
  patternCategory :: TransactionCategory
  spendingAverageMonthly :: jsnum
  trend :: Trend
  unusualActivity :: bool
  recurringExpenses :: "Transaction list"

datatype Frequency = Weekly | Biweekly | Monthly | Irregular

record IncomePattern =
  source :: jsstring
  averageMonthly :: jsnum
  frequency :: Frequency
  nextExpectedDate :: "timeValue option"
  consistency :: jsnum

record Budget =
  budgetId :: jsstring
  budgetCategory :: TransactionCategory
  monthlyLimit :: jsnum
  dailyLimit :: jsnum
  currentSpent :: jsnum
  alerts :: bool

record DailyBudget =
  budgetDate :: timeValue
  availableToSpend :: jsnum
  spent :: jsnum
  remaining :: jsnum
  percentageUsed :: jsnum

definition groupByCategory :: "Transaction list \<Rightarrow> (TransactionCategory \<times> Transaction list) list" where
  "groupByCategory txs =
     foldl (\<lambda>categoryMap t.
        let existing = (case mapGet categoryMap (category t) of None \<Rightarrow> [] | Some e \<Rightarrow> e)
        in mapSet (category t) (existing @ [t]) categoryMap) [] txs"

definition analyzeSpendingPatterns :: "Transaction list \<Rightarrow> SpendingPattern list clocked" where
  "analyzeSpendingPatterns txs =
     andThen readClock (\<lambda>now.
       let thirtyDaysAgo = now - 30 * 24 * 60 * 60 * 1000;
           recentExpenses = filter (\<lambda>t. type t = Expense \<and> date t \<ge> thirtyDaysAgo) txs
       in ret (map (\<lambda>(c, group).
            let total = totalAmount group
            in \<lparr>patternCategory = c,
                spendingAverageMonthly = total,
                trend = Stable,
                unusualActivity = jsLt (Fin 1000) total,
                recurringExpenses = filter isRecurring group\<rparr>)
          (groupByCategory recentExpenses)))"

definition analyzeIncomePatterns :: "Transaction list \<Rightarrow> IncomePattern list clocked" where
  "analyzeIncomePatterns txs =
     andThen readClock (\<lambda>now.
       let ninetyDaysAgo = now - 90 * 24 * 60 * 60 * 1000;
           recentIncome = filter (\<lambda>t. type t = Income \<and> date t \<ge> ninetyDaysAgo) txs
       in ret (map (\<lambda>(src, group).
            let total = totalAmount group
            in \<lparr>source = src,
                averageMonthly = jsDiv total (Fin 3),
                frequency = Monthly,
                nextExpectedDate = None,
                consistency = Fin 85\<rparr>)
          (groupByMerchant recentIncome)))"

text \<open>
  \<open>calculateDailyBudget\<close>. \<open>today.setHours(0, 0, 0, 0)\<close> and
  \<open>today.setHours(23, 59, 59, 999)\<close> change \<open>today\<close> itself, so the date stored in
  the budget is the last millisecond of the day. The sum of the budget limits is
  computed by the source and not used.
\<close>

definition calculateDailyBudget ::
  "Transaction list \<Rightarrow> Budget list \<Rightarrow> IncomePattern list \<Rightarrow> DailyBudget clocked" where
  "calculateDailyBudget txs budgets incomePatterns =
     andThen readClock (\<lambda>today.
       let startOfThisMonth = makeDate (getFullYear today) (getMonth today) 1;
           endOfThisMonth = makeDate (getFullYear today) (getMonth today + 1) 0;
           daysInThisMonth = getDate endOfThisMonth;
           daysRemaining = daysInThisMonth - getDate today + 1;
           monthlyIncome = sumAmounts (map averageMonthly incomePatterns);
           monthExpenses = totalAmount
             (filter (\<lambda>t. type t = Expense \<and> date t \<ge> startOfThisMonth \<and> date t \<le> today) txs);
           totalBudget = sumAmounts (map monthlyLimit budgets);
           remainingThisMonth = jsSub monthlyIncome monthExpenses;
           dailyAvailable = jsDiv remainingThisMonth (Fin (of_int daysRemaining));
           todayStart = (today div msPerDay) * msPerDay;
           todayEnd = todayStart + (23 * 3600000 + 59 * 60000 + 59 * 1000 + 999);
           todaySpent = totalAmount
             (filter (\<lambda>t. type t = Expense \<and> date t \<ge> todayStart \<and> date t \<le> todayEnd) txs)
       in ret \<lparr>budgetDate = todayEnd,
                availableToSpend = dailyAvailable,
                spent = todaySpent,
                remaining = jsSub dailyAvailable todaySpent,
                percentageUsed = jsMul (jsDiv todaySpent dailyAvailable) (Fin 100)\<rparr>)"

text \<open>An income pattern of a given monthly average, for the examples.\<close>

definition patternOf :: "jsstring \<Rightarrow> rat \<Rightarrow> IncomePattern" where
  "patternOf src a = \<lparr>source = src, averageMonthly = Fin a, frequency = Monthly,
     nextExpectedDate = None, consistency = Fin 85\<rparr>"

section \<open>The categorizer: results\<close>

lemma categorizeTransaction_cascade:
  "categorizeTransaction d m = firstKeyword cascadeKeywords (categorizeText d m)"
  by (simp add: categorizeTransaction_def cascadeKeywords_def Let_def)

lemma categorizeTransaction_other:
  "\<forall>(k, c) \<in> set cascadeKeywords. \<not> includesStr (categorizeText d m) (js k)
   \<Longrightarrow> categorizeTransaction d m = Other"
  by (simp add: categorizeTransaction_def cascadeKeywords_def Let_def)

lemma categorizeTransaction_netflix:
  "categorizeTransaction (js ''NETFLIX.COM'') None = Entertainment"
  by (simp add: categorizeTransaction_def categorizeText_def toLowerCase_def lowerUnit_def js_def)

lemma categorizeTransaction_random:
  "categorizeTransaction (js ''RANDOM XYZ CORP'') None = Other"
  by (simp add: categorizeTransaction_def categorizeText_def toLowerCase_def lowerUnit_def js_def)

text \<open>
  C1. The claim: the categorizer is a function of its two arguments, never raises, returns
  \<open>other\<close> when no keyword matches, and sends ("STARBUCKS STORE #12345", "Starbucks") to
  \<open>food\<close>. The first three parts hold (\<open>categorizeTransaction\<close> is a total function;
  \<open>categorizeTransaction_other\<close>, \<open>categorizeTransaction_netflix\<close>,
  \<open>categorizeTransaction_random\<close>). The Starbucks example does not: the lowercased text
  "starbucks store #12345 starbucks" holds no keyword of food, transportation,
  entertainment, utilities, rent or healthcare, and the first keyword it holds is "store",
  so the code answers \<open>shopping\<close>.
\<close>

theorem categorizeTransaction_starbucks_is_shopping:
  "categorizeTransaction (js ''STARBUCKS STORE #12345'') (Some (js ''Starbucks'')) = Shopping"
  by (simp add: categorizeTransaction_def categorizeText_def toLowerCase_def lowerUnit_def js_def)

section \<open>Auto-detection: results\<close>

lemmas bankPatterns_defs =
  bankOfAmerica_def chase_def wellsFargo_def citi_def capitalOne_def amex_def

lemmas headerEval_defs =
  canonicalHeaders_def headerStr_def toLowerCase_def lowerUnit_def js_def

lemma autoDetectBank_bankOfAmerica:
  "autoDetectBank (canonicalHeaders bankOfAmerica) = Some bankOfAmerica"
  by (simp add: autoDetectBank_def headerEval_defs bankOfAmerica_def)

lemma autoDetectBank_chase:
  "autoDetectBank (canonicalHeaders chase) = Some chase"
  by (simp add: autoDetectBank_def headerEval_defs chase_def)

lemma autoDetectBank_wellsFargo:
  "autoDetectBank (canonicalHeaders wellsFargo) = Some wellsFargo"
  by (simp add: autoDetectBank_def headerEval_defs wellsFargo_def)

lemma autoDetectBank_capitalOne:
  "autoDetectBank (canonicalHeaders capitalOne) = Some capitalOne"
  by (simp add: autoDetectBank_def headerEval_defs capitalOne_def)

lemma canonicalHeaders_citi:
  "canonicalHeaders citi = [js ''Date'', js ''Description'', js ''Debit'', js ''Credit'']"
  by (simp add: canonicalHeaders_def citi_def)

lemma autoDetectBank_citi:
  "autoDetectBank (canonicalHeaders citi) = None"
  by (simp add: autoDetectBank_def headerEval_defs citi_def)

lemma autoDetectBank_citi_status:
  "autoDetectBank (js ''Status'' # canonicalHeaders citi) = Some citi"
  by (simp add: autoDetectBank_def headerEval_defs citi_def)

lemma canonicalHeaders_amex:
  "canonicalHeaders amex = [js ''Date'', js ''Description'', js ''Amount'', js ''Card Member'']"
  by (simp add: canonicalHeaders_def amex_def)

text \<open>
  The American Express row is taken by the Wells Fargo rule, which comes earlier and asks
  only for "date", "amount" and at most five columns.
\<close>

lemma autoDetectBank_amex:
  "autoDetectBank (canonicalHeaders amex) = Some wellsFargo"
  by (simp add: autoDetectBank_def headerEval_defs amex_def)

lemma wellsFargo_neq_amex: "wellsFargo \<noteq> amex"
  by (simp add: wellsFargo_def amex_def js_def)

text \<open>
  C2, as the claim states it: every bank pattern is recognised from its own header row.
  It fails for Citi: the row Date, Description, Debit, Credit holds "debit" and "credit"
  but not "status", which the Citi rule also asks for, and no other rule takes it.
\<close>

theorem autoDetectBank_citi_not_recognised:
  "canonicalHeaders citi = [js ''Date'', js ''Description'', js ''Debit'', js ''Credit''] \<and>
   autoDetectBank [js ''Date'', js ''Description'', js ''Debit'', js ''Credit''] \<noteq> Some citi"
  by (simp add: autoDetectBank_def headerEval_defs citi_def)

text \<open>
  C2, amended: Bank of America, Chase, Wells Fargo and Capital One are each recognised
  from their own header row; the Citi row Date, Description, Debit, Credit is recognised
  by no rule, and is recognised as Citi once the row also has a Status column.
\<close>

theorem autoDetectBank_self_recognition:
  "autoDetectBank (canonicalHeaders bankOfAmerica) = Some bankOfAmerica \<and>
   autoDetectBank (canonicalHeaders chase) = Some chase \<and>
   autoDetectBank (canonicalHeaders wellsFargo) = Some wellsFargo \<and>
   autoDetectBank (canonicalHeaders capitalOne) = Some capitalOne \<and>
   autoDetectBank (canonicalHeaders citi) = None \<and>
   autoDetectBank (js ''Status'' # canonicalHeaders citi) = Some citi"
  using autoDetectBank_bankOfAmerica autoDetectBank_chase autoDetectBank_wellsFargo
    autoDetectBank_capitalOne autoDetectBank_citi autoDetectBank_citi_status
  by blast

lemma autoDetectBank_firstRule:
  "autoDetectBank headers = firstRule detectionRules headers"
  by (simp only: autoDetectBank_def detectionRules_def Let_def hasText_def
      isBankOfAmerica_def isChase_def isWellsFargo_def isCiti_def isCapitalOne_def
      isAmericanExpress_def firstRule.simps)

text \<open>
  C3. Auto-detection is the first-match evaluation of the six predicates in the order
  Bank of America, Chase, Wells Fargo, Citi, Capital One, American Express, and it
  returns nothing (\<open>null\<close>) on every header row on which none of the six holds.
\<close>

theorem autoDetectBank_ordered_first_match:
  "autoDetectBank headers = firstRule detectionRules headers \<and>
   map snd detectionRules = [bankOfAmerica, chase, wellsFargo, citi, capitalOne, amex] \<and>
   map fst detectionRules =
     [isBankOfAmerica, isChase, isWellsFargo, isCiti, isCapitalOne, isAmericanExpress] \<and>
   ((\<forall>(p, b) \<in> set detectionRules. \<not> p headers) \<longrightarrow> autoDetectBank headers = None)"
proof -
  have first: "autoDetectBank headers = firstRule detectionRules headers"
    by (rule autoDetectBank_firstRule)
  have none: "(\<forall>(p, b) \<in> set rules. \<not> p headers) \<longrightarrow> firstRule rules headers = None" for rules
    by (induction rules) auto
  show ?thesis
    using first none [of detectionRules] by (simp add: detectionRules_def)
qed

theorem autoDetectBank_ordered_first_match_witness:
  "\<not> isBankOfAmerica [js ''Reference'', js ''Memo''] \<and>
   \<not> isChase [js ''Reference'', js ''Memo''] \<and>
   \<not> isWellsFargo [js ''Reference'', js ''Memo''] \<and>
   \<not> isCiti [js ''Reference'', js ''Memo''] \<and>
   \<not> isCapitalOne [js ''Reference'', js ''Memo''] \<and>
   \<not> isAmericanExpress [js ''Reference'', js ''Memo''] \<and>
   autoDetectBank [js ''Reference'', js ''Memo''] = None"
proof -
  have h: "\<not> isBankOfAmerica [js ''Reference'', js ''Memo''] \<and>
      \<not> isChase [js ''Reference'', js ''Memo''] \<and>
      \<not> isWellsFargo [js ''Reference'', js ''Memo''] \<and>
      \<not> isCiti [js ''Reference'', js ''Memo''] \<and>
      \<not> isCapitalOne [js ''Reference'', js ''Memo''] \<and>
      \<not> isAmericanExpress [js ''Reference'', js ''Memo'']"
    by (simp add: hasText_def headerStr_def toLowerCase_def lowerUnit_def
        js_def isBankOfAmerica_def isChase_def isWellsFargo_def isCiti_def isCapitalOne_def
        isAmericanExpress_def)
  then have "\<forall>(p, b) \<in> set detectionRules. \<not> p [js ''Reference'', js ''Memo'']"
    by (simp add: detectionRules_def)
  with autoDetectBank_ordered_first_match [of "[js ''Reference'', js ''Memo'']"]
  have "autoDetectBank [js ''Reference'', js ''Memo''] = None" by blast
  with h show ?thesis by blast
qed

section \<open>The CSV line parser: results\<close>

lemma parseCSVLoop_quoted_body:
  "rest = [] \<or> hd rest \<noteq> dquote \<Longrightarrow>
   parseCSVLoop (escapeQuotes f @ dquote # rest) True current result =
   parseCSVLoop rest False (current @ f) result"
proof (induction f arbitrary: current)
  case Nil
  then show ?case by (cases rest) (auto simp: escapeQuotes_def)
next
  case (Cons c f)
  have step: "parseCSVLoop (escapeQuotes f @ dquote # rest) True (current @ [c]) result =
    parseCSVLoop rest False (current @ c # f) result"
    using Cons.IH [OF Cons.prems, of "current @ [c]"] by simp
  show ?case
  proof (cases "c = dquote")
    case True
    then show ?thesis using step by (simp add: escapeQuotes_def)
  next
    case False
    obtain d tl where tl: "escapeQuotes f @ dquote # rest = d # tl"
      by (cases "escapeQuotes f @ dquote # rest") auto
    have "escapeQuotes (c # f) @ dquote # rest = c # d # tl"
      using False tl by (simp add: escapeQuotes_def)
    then show ?thesis using False step tl by simp
  qed
qed

lemma parseCSVLoop_open_quote:
  "parseCSVLoop (dquote # line) False current result = parseCSVLoop line True current result"
  by (cases line) auto

lemma parseCSVLoop_comma:
  "parseCSVLoop (comma # line) False current result =
   parseCSVLoop line False [] (result @ [trim current])"
  by (cases line) auto

lemma parseCSVLoop_plain_body:
  "dquote \<notin> set f \<Longrightarrow> comma \<notin> set f \<Longrightarrow>
   parseCSVLoop (f @ rest) False current result = parseCSVLoop rest False (current @ f) result"
proof (induction f arbitrary: current)
  case Nil
  then show ?case by simp
next
  case (Cons c f)
  have step: "parseCSVLoop (f @ rest) False (current @ [c]) result =
    parseCSVLoop rest False (current @ c # f) result"
    using Cons.IH [of "current @ [c]"] Cons.prems by simp
  show ?case
  proof (cases "f @ rest")
    case Nil
    then show ?thesis using Cons.prems by simp
  next
    case (Cons d tl)
    have "(c # f) @ rest = c # d # tl" using Cons by simp
    then show ?thesis using Cons.prems step Cons by simp
  qed
qed

lemma parseCSVLoop_field:
  assumes "plainOk cell" and "rest = [] \<or> hd rest = comma"
  shows "parseCSVLoop (writeField cell @ rest) False [] result =
         parseCSVLoop rest False (snd cell) result"
proof (cases cell)
  case (Pair quoted f)
  show ?thesis
  proof (cases quoted)
    case True
    have "rest = [] \<or> hd rest \<noteq> dquote" using assms(2) by auto
    then have "parseCSVLoop (escapeQuotes f @ dquote # rest) True [] result =
        parseCSVLoop rest False ([] @ f) result"
      by (rule parseCSVLoop_quoted_body)
    then show ?thesis
      using True Pair by (simp add: quoteField_def parseCSVLoop_open_quote)
  next
    case False
    then have "dquote \<notin> set f" and "comma \<notin> set f" using assms(1) Pair by auto
    then have "parseCSVLoop (f @ rest) False [] result = parseCSVLoop rest False ([] @ f) result"
      by (rule parseCSVLoop_plain_body)
    then show ?thesis using False Pair by simp
  qed
qed

lemma parseCSVLoop_fields:
  "cells \<noteq> [] \<Longrightarrow> list_all plainOk cells \<Longrightarrow>
   parseCSVLoop (join [comma] (map writeField cells)) False [] result =
   result @ map (\<lambda>cell. trim (snd cell)) cells"
proof (induction cells arbitrary: result rule: list_nonempty_induct)
  case (single cell)
  have "parseCSVLoop (writeField cell @ []) False [] result = parseCSVLoop [] False (snd cell) result"
    by (rule parseCSVLoop_field) (use single in auto)
  then show ?case by simp
next
  case (cons cell cells)
  obtain g gs where gs: "cells = g # gs" using cons.hyps by (cases cells) auto
  let ?tail = "join [comma] (map writeField cells)"
  have line: "join [comma] (map writeField (cell # cells)) = writeField cell @ comma # ?tail"
    by (simp add: gs)
  have "parseCSVLoop (join [comma] (map writeField (cell # cells))) False [] result =
      parseCSVLoop (comma # ?tail) False (snd cell) result"
    unfolding line by (rule parseCSVLoop_field) (use cons.prems in auto)
  also have "\<dots> = parseCSVLoop ?tail False [] (result @ [trim (snd cell)])"
    by (rule parseCSVLoop_comma)
  also have "\<dots> = (result @ [trim (snd cell)]) @ map (\<lambda>cell. trim (snd cell)) cells"
    by (rule cons.IH) (use cons.prems in auto)
  finally show ?case by simp
qed

text \<open>
  C8. The parser is quote-aware. Take any line made of fields separated by commas, each
  field written either plain (then it holds no comma and no double quote) or in double
  quotes with every double quote inside doubled (then it may hold anything, commas and
  double quotes too). The line parses back to exactly these fields, one entry per field,
  each trimmed of surrounding white space as \<open>parseCSVLine\<close> trims every field. So a
  comma inside the quotes does not split the field, and a doubled double quote reads as
  one double quote of the value.
\<close>

theorem parseCSVLine_quoted_fields:
  "cells \<noteq> [] \<Longrightarrow> list_all plainOk cells \<Longrightarrow>
   parseCSVLine (join [comma] (map writeField cells)) = map (\<lambda>cell. trim (snd cell)) cells"
  by (simp add: parseCSVLine_def parseCSVLoop_fields)

theorem parseCSVLine_quoted_fields_witness:
  "[(True, js ''Smith, John''), (True, js ''say '' @ [dquote] @ js ''hi'' @ [dquote]),
    (False, js ''12'')] \<noteq> [] \<and>
   list_all plainOk [(True, js ''Smith, John''),
     (True, js ''say '' @ [dquote] @ js ''hi'' @ [dquote]), (False, js ''12'')] \<and>
   parseCSVLine (dquote # js ''Smith, John'' @ [dquote, comma, dquote] @ js ''say '' @
       [dquote, dquote] @ js ''hi'' @ [dquote, dquote, dquote, comma] @ js ''12'')
     = [js ''Smith, John'', js ''say '' @ [dquote] @ js ''hi'' @ [dquote], js ''12'']"
  using parseCSVLine_quoted_fields
    [of "[(True, js ''Smith, John''), (True, js ''say '' @ [dquote] @ js ''hi'' @ [dquote]),
          (False, js ''12'')]"]
  by (simp add: quoteField_def escapeQuotes_def trim_def isWhiteSpace_def js_def)

section \<open>Rounding to binary64: results\<close>

text \<open>
  The exponent of a positive rational: \<open>2 ^ e \<le> a < 2 ^ (e + 1)\<close> for
  \<open>e = binaryExponent a\<close>.
\<close>

lemma bitLength_nonneg: "0 \<le> bitLength n"
  by (induction n rule: bitLength.induct) (subst bitLength.simps, auto)

lemma bitLength_pos: "0 < n \<Longrightarrow> 0 < bitLength n"
  using bitLength_nonneg [of "n div 2"] by (subst bitLength.simps) simp

lemma bitLength_bounds:
  "0 < n \<Longrightarrow> 2 ^ nat (bitLength n - 1) \<le> n \<and> n < 2 ^ nat (bitLength n)"
proof (induction n rule: bitLength.induct)
  case (1 n)
  show ?case
  proof (cases "n = 1")
    case True
    have "bitLength 1 = 1"
      by (simp add: bitLength.simps [of 1] bitLength.simps [of 0])
    then show ?thesis using True by simp
  next
    case False
    with 1(2) have h: "0 < n div 2" by simp
    have ih: "2 ^ nat (bitLength (n div 2) - 1) \<le> n div 2 \<and> n div 2 < 2 ^ nat (bitLength (n div 2))"
      using 1(1) 1(2) h by simp
    have b: "bitLength n = 1 + bitLength (n div 2)"
      using 1(2) by (subst bitLength.simps) simp
    have p: "0 < bitLength (n div 2)" using h by (rule bitLength_pos)
    have e1: "nat (bitLength n - 1) = Suc (nat (bitLength (n div 2) - 1))"
      using b p by simp
    have e2: "nat (bitLength n) = Suc (nat (bitLength (n div 2)))"
      using b p by simp
    have "2 * 2 ^ nat (bitLength (n div 2) - 1) \<le> n" using ih by linarith
    moreover have "n < 2 * 2 ^ nat (bitLength (n div 2))" using ih by linarith
    ultimately show ?thesis unfolding e1 e2 by simp
  qed
qed

lemma pow2_Suc: "pow2 (e + 1) = 2 * pow2 e"
proof (cases "0 \<le> e")
  case True
  then have "nat (e + 1) = Suc (nat e)" by simp
  then show ?thesis using True by (simp add: pow2_def)
next
  case False
  then have "nat (- e) = Suc (nat (- (e + 1)))" by simp
  then show ?thesis using False by (cases "e = - 1") (simp_all add: pow2_def)
qed

lemma pow2_pos: "0 < pow2 e"
  by (simp add: pow2_def)

lemma of_int_pow2_le: "2 ^ k \<le> n \<Longrightarrow> (2::rat) ^ k \<le> of_int n"
proof -
  assume "2 ^ k \<le> n"
  then have "(of_int (2 ^ k) :: rat) \<le> of_int n" by (simp only: of_int_le_iff)
  then show ?thesis by simp
qed

lemma of_int_le_pow2: "n \<le> 2 ^ k \<Longrightarrow> (of_int n :: rat) \<le> 2 ^ k"
proof -
  assume "n \<le> 2 ^ k"
  then have "(of_int n :: rat) \<le> of_int (2 ^ k)" by (simp only: of_int_le_iff)
  then show ?thesis by simp
qed

lemma of_int_pow2_less: "2 ^ k < n \<Longrightarrow> (2::rat) ^ k < of_int n"
proof -
  assume "2 ^ k < n"
  then have "(of_int (2 ^ k) :: rat) < of_int n" by (simp only: of_int_less_iff)
  then show ?thesis by simp
qed

lemma binaryExponent_large:
  assumes "1 \<le> a"
  shows "pow2 (binaryExponent a) \<le> a \<and> a < pow2 (binaryExponent a + 1)"
proof -
  define n where "n = \<lfloor>a\<rfloor>"
  have n: "0 < n" using assms by (simp add: n_def)
  have na: "of_int n \<le> a" "a < of_int (n + 1)" unfolding n_def by linarith+
  have e: "binaryExponent a = bitLength n - 1" using assms by (simp add: binaryExponent_def n_def)
  have p: "0 < bitLength n" using n by (rule bitLength_pos)
  note b = bitLength_bounds [OF n]
  have "(2::rat) ^ nat (bitLength n - 1) \<le> of_int n"
    using b by (simp add: of_int_pow2_le)
  then have "(2::rat) ^ nat (bitLength n - 1) \<le> a" using na by linarith
  then have lo: "pow2 (binaryExponent a) \<le> a" using p by (simp add: e pow2_def)
  have "n + 1 \<le> 2 ^ nat (bitLength n)" using b by simp
  then have "(of_int (n + 1) :: rat) \<le> 2 ^ nat (bitLength n)"
    by (rule of_int_le_pow2)
  then have "a < 2 ^ nat (bitLength n)" using na by linarith
  then have hi: "a < pow2 (binaryExponent a + 1)" using p by (simp add: e pow2_def)
  show ?thesis using lo hi by blast
qed

lemma binaryExponent_small:
  assumes "0 < a" "a < 1"
  shows "pow2 (binaryExponent a) \<le> a \<and> a < pow2 (binaryExponent a + 1)"
proof -
  define c where "c = \<lceil>1 / a\<rceil>"
  define k where "k = bitLength (c - 1)"
  have inv: "1 < 1 / a" using assms by simp
  have ca: "1 / a \<le> of_int c" "of_int (c - 1) < 1 / a" unfolding c_def by linarith+
  have "1 < (of_int c :: rat)" using inv ca by linarith
  then have c2: "1 < c" by simp
  then have n: "0 < c - 1" by simp
  have e: "binaryExponent a = - k" using assms by (simp add: binaryExponent_def c_def k_def)
  have p: "0 < k" unfolding k_def using n by (rule bitLength_pos)
  note b = bitLength_bounds [OF n, folded k_def]
  have "c \<le> 2 ^ nat k" using b by simp
  then have "(of_int c :: rat) \<le> 2 ^ nat k" by (rule of_int_le_pow2)
  then have "1 / a \<le> 2 ^ nat k" using ca by linarith
  then have "1 \<le> a * 2 ^ nat k" using assms by (simp add: field_simps)
  then have "1 / 2 ^ nat k \<le> a" by (simp add: field_simps)
  then have lo: "pow2 (binaryExponent a) \<le> a" using p by (simp add: e pow2_def)
  have "2 ^ nat (k - 1) \<le> c - 1" using b by blast
  then have "(2::rat) ^ nat (k - 1) \<le> of_int (c - 1)" by (rule of_int_pow2_le)
  then have "(2::rat) ^ nat (k - 1) < 1 / a" using ca by linarith
  then have lt: "a * 2 ^ nat (k - 1) < 1" using assms by (simp add: field_simps)
  have hi: "a < pow2 (binaryExponent a + 1)"
  proof (cases "k = 1")
    case True
    then show ?thesis using lt by (simp add: e pow2_def)
  next
    case False
    then have k: "nat (- (- k + 1)) = nat (k - 1)" "\<not> 0 \<le> - k + 1" using p by simp_all
    have "a < 1 / 2 ^ nat (k - 1)" using lt by (simp add: field_simps)
    then show ?thesis unfolding e pow2_def using k by simp
  qed
  show ?thesis using lo hi by blast
qed

lemma binaryExponent_bounds:
  "0 < a \<Longrightarrow> pow2 (binaryExponent a) \<le> a \<and> a < pow2 (binaryExponent a + 1)"
  using binaryExponent_large [of a] binaryExponent_small [of a] by (cases "1 \<le> a") simp_all

text \<open>The rounding to an integer is to the nearest one, and to the even one on a tie.\<close>

lemma roundHalfEven_nearest:
  "\<bar>of_int (roundHalfEven x) - x\<bar> \<le> 1 / 2 \<and>
   (\<bar>of_int (roundHalfEven x) - x\<bar> = 1 / 2 \<longrightarrow> even (roundHalfEven x))"
proof -
  define n where "n = \<lfloor>x\<rfloor>"
  define r where "r = x - of_int n"
  have r: "0 \<le> r" "r < 1" unfolding r_def n_def by linarith+
  have x: "x = of_int n + r" by (simp add: r_def)
  have v: "roundHalfEven x =
      (if r < 1 / 2 then n else if 1 / 2 < r then n + 1 else if even n then n else n + 1)"
    by (simp add: roundHalfEven_def Let_def n_def r_def)
  show ?thesis unfolding v using r x by (auto simp: abs_if)
qed

lemma pow2_powi: "pow2 e = 2 powi e"
  by (simp add: pow2_def power_int_def inverse_eq_divide power_divide)

lemma pow2_add: "pow2 (a + b) = pow2 a * pow2 b"
  by (simp add: pow2_powi power_int_add)

lemma pow2_mono: "a \<le> b \<Longrightarrow> pow2 a \<le> pow2 b"
  by (simp add: pow2_powi power_int_increasing)

lemma roundHalfEven_range:
  assumes "0 \<le> y" "y < of_int m"
  shows "0 \<le> roundHalfEven y \<and> roundHalfEven y \<le> m"
proof -
  have f: "0 \<le> \<lfloor>y\<rfloor>" "\<lfloor>y\<rfloor> < m" using assms by (simp_all add: floor_less_iff)
  then show ?thesis by (auto simp: roundHalfEven_def Let_def)
qed

text \<open>
  A finite rounding of \<open>x\<close> is a multiple \<open>n\<close> of the unit in the last place of \<open>x\<close>,
  with \<open>n\<close> at most \<open>2 ^ 53\<close>, at most half a unit away from \<open>x\<close>, and of even \<open>n\<close>
  when exactly half a unit away.
\<close>

lemma binary64_nearest:
  assumes "x \<noteq> 0" and "binary64 x = Fin v"
  shows "\<exists>n. \<bar>v\<bar> = of_int n * pow2 (max (binaryExponent \<bar>x\<bar>) (- 1022) - 52) \<and>
           0 \<le> n \<and> n \<le> 2 ^ 53 \<and>
           \<bar>v - x\<bar> \<le> pow2 (max (binaryExponent \<bar>x\<bar>) (- 1022) - 52) / 2 \<and>
           (\<bar>v - x\<bar> = pow2 (max (binaryExponent \<bar>x\<bar>) (- 1022) - 52) / 2 \<longrightarrow> even n)"
proof -
  define e where "e = binaryExponent \<bar>x\<bar>"
  define ulp where "ulp = pow2 (max e (- 1022) - 52)"
  define n where "n = roundHalfEven (\<bar>x\<bar> / ulp)"
  have u: "0 < ulp" by (simp add: ulp_def pow2_pos)
  have pos: "0 < \<bar>x\<bar>" using assms(1) by simp
  have v: "v = (if x < 0 then - (of_int n * ulp) else of_int n * ulp)"
    using assms unfolding binary64_def Let_def e_def [symmetric] ulp_def [symmetric] n_def [symmetric]
    by (auto split: if_splits)
  have "\<bar>x\<bar> < pow2 (e + 1)" using binaryExponent_bounds [OF pos] by (simp add: e_def)
  also have "\<dots> \<le> pow2 (max e (- 1022) + 1)" by (rule pow2_mono) simp
  also have "\<dots> = ulp * pow2 53"
    using pow2_add [of "max e (- 1022) - 52" 53] by (simp add: ulp_def add.commute)
  finally have "\<bar>x\<bar> / ulp < pow2 53" using u by (simp add: field_simps)
  then have "\<bar>x\<bar> / ulp < of_int (2 ^ 53)" by (simp add: pow2_def)
  moreover have "0 \<le> \<bar>x\<bar> / ulp" using u by simp
  ultimately have nr: "0 \<le> n \<and> n \<le> 2 ^ 53" unfolding n_def by (rule roundHalfEven_range [rotated])
  have d: "\<bar>of_int n - \<bar>x\<bar> / ulp\<bar> \<le> 1 / 2"
    "\<bar>of_int n - \<bar>x\<bar> / ulp\<bar> = 1 / 2 \<longrightarrow> even n"
    using roundHalfEven_nearest [of "\<bar>x\<bar> / ulp"] by (simp_all add: n_def)
  have s: "\<bar>of_int n * ulp - \<bar>x\<bar>\<bar> = \<bar>of_int n - \<bar>x\<bar> / ulp\<bar> * ulp"
  proof -
    have "of_int n * ulp - \<bar>x\<bar> = (of_int n - \<bar>x\<bar> / ulp) * ulp" using u by (simp add: field_simps)
    then show ?thesis using u by (simp add: abs_mult)
  qed
  have a: "\<bar>v\<bar> = of_int n * ulp" using nr u by (simp add: v abs_mult)
  have dist: "\<bar>v - x\<bar> = \<bar>of_int n * ulp - \<bar>x\<bar>\<bar>"
  proof (cases "x < 0")
    case True
    then have "v - x = - (of_int n * ulp - \<bar>x\<bar>)" by (simp add: v)
    then show ?thesis by (simp only: abs_minus_cancel)
  next
    case False
    then show ?thesis by (simp add: v)
  qed
  have 1: "\<bar>v - x\<bar> \<le> ulp / 2"
    unfolding dist s using d(1) u by (simp add: field_simps)
  have 2: "\<bar>v - x\<bar> = ulp / 2 \<longrightarrow> even n"
    unfolding dist s using d(2) u by (simp add: field_simps)
  show ?thesis
    using a nr 1 2 unfolding ulp_def e_def by blast
qed

text \<open>The bit length of a numeral and the integer part of a quotient of numerals, for
  the evaluation of the rounding.\<close>

lemma bitLength_numeral:
  "bitLength 0 = 0"
  "bitLength 1 = 1"
  "bitLength (numeral (Num.Bit0 k)) = 1 + bitLength (numeral k)"
  "bitLength (numeral (Num.Bit1 k)) = 1 + bitLength (numeral k)"
  "bitLength (- numeral k) = 0"
proof -
  show "bitLength 0 = 0" by (simp add: bitLength.simps)
  show "bitLength 1 = 1" by (simp add: bitLength.simps [of 1] bitLength.simps [of 0])
  show "bitLength (numeral (Num.Bit0 k)) = 1 + bitLength (numeral k)"
    by (subst bitLength.simps) simp
  show "bitLength (numeral (Num.Bit1 k)) = 1 + bitLength (numeral k)"
    by (subst bitLength.simps) simp
  show "bitLength (- numeral k) = 0"
    by (subst bitLength.simps) simp
qed

lemma floor_rat_numeral:
  "\<lfloor>(numeral a / numeral b :: rat)\<rfloor> = numeral a div numeral b"
  using floor_divide_of_int_eq [of "numeral a" "numeral b", where ?'a = rat] by simp

lemma floor_rat_one_numeral:
  "\<lfloor>(1 / numeral b :: rat)\<rfloor> = 1 div numeral b"
  using floor_divide_of_int_eq [of 1 "numeral b", where ?'a = rat] by simp

lemma ceiling_rat_numeral:
  "\<lceil>(numeral a / numeral b :: rat)\<rceil> = - (- numeral a div numeral b)"
  using floor_divide_of_int_eq [of "- numeral a" "numeral b", where ?'a = rat]
  by (simp add: ceiling_def)

lemmas binary64_defs =
  binary64_def binaryExponent_def roundHalfEven_def pow2_def bitLength_numeral
  floor_rat_numeral floor_rat_one_numeral ceiling_rat_numeral Let_def

lemma binary64_not_NaN: "binary64 x \<noteq> NaN"
  by (simp add: binary64_def Let_def)

text \<open>
  Numbers of the examples: one tenth, 1234.56 and 9.99 round to the binary64 values that
  the literals \<open>0.1\<close>, \<open>1234.56\<close> and \<open>9.99\<close> denote; an integer below \<open>2 ^ 53\<close> is its
  own rounding, and \<open>2 ^ 53 + 1\<close>, half way between two Numbers, rounds to the even one.
\<close>

lemma binary64_values:
  "binary64 (1 / 10) = Fin (3602879701896397 / 36028797018963968)"
  "binary64 (123456 / 100) = Fin (2714826150374277 / 2199023255552)"
  "binary64 (999 / 100) = Fin (5623870034678907 / 562949953421312)"
  "binary64 (421 / 10) = Fin (5925048259759309 / 140737488355328)"
  "binary64 9007199254740993 = Fin 9007199254740992"
  "binary64 (- 45) = Fin (- 45)"
  "binary64 45 = Fin 45"
  "binary64 10 = Fin 10"
  "binary64 1200 = Fin 1200"
  by (simp_all add: binary64_defs)

text \<open>
  The ends of the range: the largest Number is \<open>2 ^ 1024 - 2 ^ 971\<close>, and half a unit
  in the last place above it the rounding is infinite; the smallest is \<open>2 ^ - 1074\<close>,
  half of it rounds to zero and one and a half of it to twice it.
\<close>

lemma binary64_range:
  "binary64 (10 ^ 400) = PosInf"
  "binary64 (- (10 ^ 400)) = NegInf"
  "binary64 (2 ^ 1024 - 2 ^ 970) = PosInf"
  "binary64 (2 ^ 1024 - 2 ^ 970 - 1) = Fin (2 ^ 1024 - 2 ^ 971)"
  "binary64 (1 / 10 ^ 400) = Fin 0"
  "binary64 (1 / 2 ^ 1075) = Fin 0"
  "binary64 (3 / 2 ^ 1075) = Fin (1 / 2 ^ 1073)"
  by (simp_all add: binary64_defs)

section \<open>Amounts: results\<close>

lemmas parseAmount_defs =
  parseAmount_def cleanAmount_def isAmountNoise_def isWhiteSpace_def trim_def parseFloat_def
  parseUnsigned_def parseExponent_def pow10_def digitsValue_def isDigit_def js_def Let_def
  binary64_not_NaN

lemma trim_id: "s \<noteq> [] \<Longrightarrow> \<not> isWhiteSpace (hd s) \<Longrightarrow> \<not> isWhiteSpace (last s) \<Longrightarrow> trim s = s"
proof -
  assume a: "s \<noteq> []" "\<not> isWhiteSpace (hd s)" "\<not> isWhiteSpace (last s)"
  have 1: "dropWhile isWhiteSpace s = s"
    using a by (simp add: dropWhile_eq_self_iff)
  have 2: "dropWhile isWhiteSpace (rev s) = rev s"
    using a by (simp add: dropWhile_eq_self_iff hd_rev)
  show ?thesis by (simp add: trim_def 1 2)
qed

lemma isDigit_plain:
  "isDigit c \<Longrightarrow> \<not> isAmountNoise c \<and> \<not> isWhiteSpace c \<and> c \<noteq> 0x28 \<and> c \<noteq> 0x29 \<and> c \<noteq> 0x2D \<and> c \<noteq> 0x2B \<and> c \<noteq> 0x2E \<and> c \<noteq> 0x49"
  by (auto simp: isDigit_def isAmountNoise_def isWhiteSpace_def word_le_nat_alt)

lemma plain_marks:
  "\<not> isAmountNoise 0x2E" "\<not> isAmountNoise 0x28" "\<not> isAmountNoise 0x29"
  by (simp_all add: isAmountNoise_def isWhiteSpace_def)

lemma cleanAmount_filter: "cleanAmount (filter (\<lambda>c. \<not> isAmountNoise c) s) = cleanAmount s"
  by (simp add: cleanAmount_def)

lemma filter_digits: "list_all isDigit ds \<Longrightarrow> filter (\<lambda>c. \<not> isAmountNoise c) ds = ds"
  by (induction ds) (auto dest: isDigit_plain)

lemma map_digits: "list_all isDigit ds \<Longrightarrow> map (\<lambda>c. if c = 0x28 \<or> c = 0x29 then 0x2D else c) ds = ds"
  by (induction ds) (auto dest: isDigit_plain)

lemma takeWhile_digits: "list_all isDigit ds \<Longrightarrow> \<not> isDigit c \<Longrightarrow> takeWhile isDigit (ds @ c # r) = ds"
  by (induction ds) auto

lemma dropWhile_digits: "list_all isDigit ds \<Longrightarrow> \<not> isDigit c \<Longrightarrow> dropWhile isDigit (ds @ c # r) = c # r"
  by (induction ds) auto

lemma takeWhile_digits_end: "list_all isDigit ds \<Longrightarrow> takeWhile isDigit ds = ds"
  by (induction ds) auto

lemma dropWhile_digits_end: "list_all isDigit ds \<Longrightarrow> dropWhile isDigit ds = []"
  by (induction ds) auto

lemma parseFloat_decimal:
  assumes "ds \<noteq> []" "list_all isDigit ds" "list_all isDigit fs"
  shows "parseFloat (ds @ 0x2E # fs) = binary64 (decimalValue ds fs)"
proof -
  obtain d ds' where ds: "ds = d # ds'" using assms(1) by (cases ds) auto
  have d: "isDigit d" using assms(2) ds by simp
  have nd: "\<not> isDigit 0x2E" by (simp add: isDigit_def)
  have 1: "dropWhile isWhiteSpace (ds @ 0x2E # fs) = ds @ 0x2E # fs"
    using d ds isDigit_plain by auto
  have 2: "\<not> startsWith (ds @ 0x2E # fs) (js ''Infinity'')"
    using d ds isDigit_plain by (auto simp: js_def)
  have 3: "parseUnsigned (ds @ 0x2E # fs) = Some (decimalValue ds fs)"
    using assms nd
    by (simp add: parseUnsigned_def takeWhile_digits dropWhile_digits takeWhile_digits_end
        dropWhile_digits_end Let_def parseExponent_def pow10_def decimalValue_def)
  show ?thesis
    using d ds isDigit_plain [OF d] 2 3 by (simp add: parseFloat_def 1 Let_def)
qed

lemma parseFloat_negated_decimal:
  assumes "ds \<noteq> []" "list_all isDigit ds" "list_all isDigit fs"
  shows "parseFloat (0x2D # ds @ 0x2E # fs @ [0x2D]) = binary64 (- decimalValue ds fs)"
proof -
  obtain d ds' where ds: "ds = d # ds'" using assms(1) by (cases ds) auto
  have d: "isDigit d" using assms(2) ds by simp
  have nd: "\<not> isDigit 0x2E" "\<not> isDigit 0x2D" by (simp_all add: isDigit_def)
  have 2: "\<not> startsWith (ds @ 0x2E # fs @ [0x2D]) (js ''Infinity'')"
    using d ds isDigit_plain by (auto simp: js_def)
  have 3: "parseUnsigned (ds @ 0x2E # fs @ [0x2D]) = Some (decimalValue ds fs)"
    using assms nd
    by (simp add: parseUnsigned_def takeWhile_digits dropWhile_digits
        Let_def parseExponent_def pow10_def decimalValue_def)
  show ?thesis
    using 2 3 by (simp add: parseFloat_def isWhiteSpace_def Let_def)
qed

lemma parseAmount_decimal:
  assumes "ds \<noteq> []" "list_all isDigit ds" "list_all isDigit fs"
  shows "parseAmount (ds @ 0x2E # fs) = binary64 (decimalValue ds fs)"
proof -
  obtain d ds' where ds: "ds = d # ds'" using assms(1) by (cases ds) auto
  have d: "isDigit d" using assms(2) ds by simp
  have last: "\<not> isWhiteSpace (last (ds @ 0x2E # fs))"
  proof (cases "fs = []")
    case True then show ?thesis by (simp add: isWhiteSpace_def)
  next
    case False
    then have "last fs \<in> set fs" by simp
    then have "isDigit (last fs)" using assms(3) by (simp add: list_all_iff)
    then show ?thesis using False isDigit_plain by simp
  qed
  have "cleanAmount (ds @ 0x2E # fs) = trim (ds @ 0x2E # fs)"
    using assms by (simp add: cleanAmount_def filter_digits map_digits plain_marks)
  also have "\<dots> = ds @ 0x2E # fs"
    by (rule trim_id) (use d ds isDigit_plain last in auto)
  finally show ?thesis
    using parseFloat_decimal [OF assms] by (simp add: parseAmount_def binary64_not_NaN)
qed

lemma parseAmount_parenthesized:
  assumes "ds \<noteq> []" "list_all isDigit ds" "list_all isDigit fs"
  shows "parseAmount (0x28 # ds @ 0x2E # fs @ [0x29]) = binary64 (- decimalValue ds fs)"
proof -
  have "cleanAmount (0x28 # ds @ 0x2E # fs @ [0x29]) = trim (0x2D # ds @ 0x2E # fs @ [0x2D])"
    using assms by (simp add: cleanAmount_def filter_digits map_digits plain_marks)
  also have "\<dots> = 0x2D # ds @ 0x2E # fs @ [0x2D]"
    by (rule trim_id) (simp_all add: isWhiteSpace_def)
  finally show ?thesis
    using parseFloat_negated_decimal [OF assms] by (simp add: parseAmount_def binary64_not_NaN)
qed

lemma parseAmount_dollars: "parseAmount (js ''$1,234.56'') = binary64 (123456 / 100)"
  by (simp add: parseAmount_defs)

lemma parseAmount_parens: "parseAmount (js ''(45.00)'') = Fin (- 45)"
  by (simp add: parseAmount_defs binary64_values)

lemma parseAmount_euro: "parseAmount (0x20AC # js ''10'') = Fin 10"
  by (simp add: parseAmount_defs binary64_values)

lemma parseAmount_strips:
  "parseAmount s = parseAmount (filter (\<lambda>c. \<not> isAmountNoise c) s)"
  by (simp add: parseAmount_def cleanAmount_filter)

lemma parseAmount_not_NaN: "parseAmount s \<noteq> NaN"
  by (simp add: parseAmount_def Let_def)

text \<open>
  The rounding shows on long literals: \<open>2 ^ 53 + 1\<close> is read as \<open>2 ^ 53\<close>, a literal
  beyond the range as infinity, and one below the smallest Number as zero.
\<close>

lemma parseAmount_rounds:
  "parseAmount (js ''9007199254740993'') = Fin 9007199254740992"
  "parseAmount (js ''1e400'') = PosInf"
  "parseAmount (js ''(1e400)'') = NegInf"
  "parseAmount (js ''1e-400'') = Fin 0"
  by (simp_all add: parseAmount_defs binary64_defs)

text \<open>
  C9. Amount normalization: "$1,234.56", "(45.00)" and "\<euro>10" (the euro sign is the code
  unit U+20AC) give the Numbers 1234.56, -45 and 10, the first being the binary64 value
  nearest to 123456/100, as every Number written 1234.56 is; the currency signs, commas
  and white space of a string do not count; digits with a fraction give the Number
  nearest to their decimal value, and the same in parentheses gives the Number nearest
  to its negative; a string that does not parse (\<open>parseFloat\<close> of the cleaned string is
  \<open>NaN\<close>) gives 0, and the result is never \<open>NaN\<close>.
\<close>

theorem parseAmount_normalizes:
  "parseAmount (js ''$1,234.56'') = binary64 (123456 / 100) \<and>
   binary64 (123456 / 100) = Fin (2714826150374277 / 2199023255552) \<and>
   parseAmount (js ''(45.00)'') = Fin (- 45) \<and>
   parseAmount (0x20AC # js ''10'') = Fin 10 \<and>
   parseAmount s = parseAmount (filter (\<lambda>c. \<not> isAmountNoise c) s) \<and>
   (ds \<noteq> [] \<and> list_all isDigit ds \<and> list_all isDigit fs \<longrightarrow>
      parseAmount (ds @ 0x2E # fs) = binary64 (decimalValue ds fs) \<and>
      parseAmount (0x28 # ds @ 0x2E # fs @ [0x29]) = binary64 (- decimalValue ds fs)) \<and>
   (parseFloat (cleanAmount s) = NaN \<longrightarrow> parseAmount s = Fin 0) \<and>
   parseAmount s \<noteq> NaN"
  using parseAmount_dollars parseAmount_parens parseAmount_euro parseAmount_strips [of s]
    parseAmount_not_NaN [of s] parseAmount_decimal [of ds fs] parseAmount_parenthesized [of ds fs]
    binary64_values(2)
  by (simp add: parseAmount_def)

theorem parseAmount_normalizes_witness:
  "(js ''45'' \<noteq> [] \<and> list_all isDigit (js ''45'') \<and> list_all isDigit (js ''00'')) \<and>
   parseAmount (js ''45.00'') = Fin 45 \<and>
   parseAmount (js ''(45.00)'') = Fin (- 45) \<and>
   parseFloat (cleanAmount (js ''n/a'')) = NaN \<and>
   parseAmount (js ''n/a'') = Fin 0"
proof -
  have h1: "js ''45'' \<noteq> [] \<and> list_all isDigit (js ''45'') \<and> list_all isDigit (js ''00'')"
    by (simp add: js_def isDigit_def)
  have h2: "parseFloat (cleanAmount (js ''n/a'')) = NaN"
    by (simp add: parseAmount_defs)
  have v: "binary64 (decimalValue (js ''45'') (js ''00'')) = Fin 45"
    "binary64 (- decimalValue (js ''45'') (js ''00'')) = Fin (- 45)"
    by (simp_all add: decimalValue_def digitsValue_def js_def binary64_values)
  have e: "js ''45'' @ 0x2E # js ''00'' = js ''45.00''"
    "0x28 # js ''45'' @ 0x2E # js ''00'' @ [0x29] = js ''(45.00)''"
    by (simp_all add: js_def)
  note inst = parseAmount_normalizes [where s = "js ''n/a''" and ds = "js ''45''" and fs = "js ''00''"]
  from inst h1 have a: "parseAmount (js ''45'' @ 0x2E # js ''00'') = binary64 (decimalValue (js ''45'') (js ''00''))"
    by blast
  from inst h1 have b: "parseAmount (0x28 # js ''45'' @ 0x2E # js ''00'' @ [0x29]) =
      binary64 (- decimalValue (js ''45'') (js ''00''))"
    by blast
  from inst h2 have c: "parseAmount (js ''n/a'') = Fin 0"
    by blast
  from a b show ?thesis unfolding v e using h1 h2 c by blast
qed

section \<open>Recurring charges: results\<close>

lemma map_of_mapSet: "map_of (mapSet k v m) = (map_of m)(k \<mapsto> v)"
  by (induction m) (auto simp: fun_eq_iff)

lemma keys_mapSet: "set (map fst (mapSet k v m)) = insert k (set (map fst m))"
proof -
  have "set (map fst (mapSet k v m)) = dom (map_of (mapSet k v m))"
    by (simp add: dom_map_of_conv_image_fst)
  also have "\<dots> = insert k (dom (map_of m))"
    by (simp add: map_of_mapSet)
  also have "\<dots> = insert k (set (map fst m))"
    by (simp add: dom_map_of_conv_image_fst)
  finally show ?thesis .
qed

lemma distinct_mapSet: "distinct (map fst m) \<Longrightarrow> distinct (map fst (mapSet k v m))"
proof (induction m)
  case Nil
  then show ?case by simp
next
  case (Cons p m)
  obtain k' v' where p: "p = (k', v')" by (cases p)
  show ?case
  proof (cases "k' = k")
    case True
    then show ?thesis using Cons.prems p by simp
  next
    case False
    have "k' \<notin> set (map fst (mapSet k v m))"
      using Cons.prems p False unfolding keys_mapSet by simp
    then show ?thesis using Cons p False by simp
  qed
qed

lemma merchantKey_groupOf:
  "groupOf txs k = filter (\<lambda>t. merchantKey t = k) txs"
  unfolding groupOf_def
  by (rule filter_cong) (auto simp: merchantKey_def split: option.splits)

lemma groupByMerchant_snoc:
  "groupByMerchant (txs @ [t]) =
     mapSet (merchantKey t)
       ((case map_of (groupByMerchant txs) (merchantKey t) of None \<Rightarrow> [] | Some e \<Rightarrow> e) @ [t])
       (groupByMerchant txs)"
  by (simp add: groupByMerchant_def mapGet_def Let_def)

lemma groupByMerchant_inv:
  "distinct (map fst (groupByMerchant txs)) \<and>
   (\<forall>k. map_of (groupByMerchant txs) k =
      (if groupOf txs k = [] then None else Some (groupOf txs k)))"
proof (induction txs rule: rev_induct)
  case Nil
  then show ?case by (simp add: groupByMerchant_def groupOf_def)
next
  case (snoc t txs)
  then show ?case
    by (auto simp: groupByMerchant_snoc distinct_mapSet map_of_mapSet merchantKey_groupOf)
qed

lemma groupByMerchant_set:
  "(k, g) \<in> set (groupByMerchant txs) \<longleftrightarrow> g = groupOf txs k \<and> g \<noteq> []"
proof -
  have d: "distinct (map fst (groupByMerchant txs))"
    using groupByMerchant_inv [of txs] by blast
  have m: "map_of (groupByMerchant txs) k =
      (if groupOf txs k = [] then None else Some (groupOf txs k))"
    using groupByMerchant_inv [of txs] by blast
  have "(k, g) \<in> set (groupByMerchant txs) \<longleftrightarrow> map_of (groupByMerchant txs) k = Some g"
    using d by simp
  also have "\<dots> \<longleftrightarrow> g = groupOf txs k \<and> g \<noteq> []"
    unfolding m by auto
  finally show ?thesis .
qed

declare recurringOf.simps [simp del]

lemma recurringOf_rule:
  "recurringOf (m, g) =
     (if 2 \<le> length g \<and>
         jsLt (populationVariance (map amount g)) (mul64 (mean (map amount g)) (binary64 (1 / 10)))
      then [\<lparr>rMerchantName = m, rAmount = mean (map amount g), rFrequency = length g\<rparr>]
      else [])"
proof (cases "length g < 2")
  case True
  then show ?thesis by (simp add: recurringOf.simps)
next
  case False
  let ?xs = "map amount g"
  have avg: "div64 (foldl (\<lambda>sum a. add64 sum a) (Fin 0) ?xs) (Fin (of_nat (length ?xs))) = mean ?xs"
    by (simp add: mean_def sum64_def)
  have var: "div64
      (foldl (\<lambda>sum a. add64 sum (mathPow2 (sub64 a (mean ?xs)))) (Fin 0) ?xs)
      (Fin (of_nat (length ?xs))) = populationVariance ?xs"
    unfolding populationVariance_def sum64_def mathPow2_def foldl_map ..
  have "recurringOf (m, g) =
      (if jsLt (populationVariance ?xs) (mul64 (mean ?xs) (binary64 (1 / 10)))
       then [\<lparr>rMerchantName = m, rAmount = mean ?xs, rFrequency = length g\<rparr>] else [])"
    using False by (simp only: recurringOf.simps Let_def avg var if_False)
  then show ?thesis using False by simp
qed

lemma identifyRecurring_entries:
  "e \<in> set (identifyRecurringTransactions txs) \<longleftrightarrow>
     (\<exists>k. 2 \<le> length (groupAmounts txs k) \<and>
        jsLt (populationVariance (groupAmounts txs k))
          (mul64 (mean (groupAmounts txs k)) (binary64 (1 / 10))) \<and>
        e = \<lparr>rMerchantName = k, rAmount = mean (groupAmounts txs k),
              rFrequency = length (groupAmounts txs k)\<rparr>)"
proof -
  have "e \<in> set (identifyRecurringTransactions txs) \<longleftrightarrow>
      (\<exists>k g. (k, g) \<in> set (groupByMerchant txs) \<and> e \<in> set (recurringOf (k, g)))"
    by (auto simp: identifyRecurringTransactions_def)
  also have "\<dots> \<longleftrightarrow> (\<exists>k. groupOf txs k \<noteq> [] \<and> e \<in> set (recurringOf (k, groupOf txs k)))"
    by (auto simp: groupByMerchant_set)
  also have "\<dots> \<longleftrightarrow> (\<exists>k. 2 \<le> length (groupAmounts txs k) \<and>
        jsLt (populationVariance (groupAmounts txs k))
          (mul64 (mean (groupAmounts txs k)) (binary64 (1 / 10))) \<and>
        e = \<lparr>rMerchantName = k, rAmount = mean (groupAmounts txs k),
              rFrequency = length (groupAmounts txs k)\<rparr>)"
    by (auto simp: recurringOf_rule groupAmounts_def)
  finally show ?thesis .
qed

lemmas recurring_eval_defs =
  identifyRecurringTransactions_def groupByMerchant_def mapGet_def merchantKey_def charge_def
  payment_def recurringOf.simps mathPow2_def add64_def sub64_def mul64_def div64_def jsSub_def
  binary64_defs js_def

lemma identifyRecurring_steady:
  "identifyRecurringTransactions
     [charge (js ''Netflix'') (999 / 100), charge (js ''Netflix'') (999 / 100),
      charge (js ''Netflix'') (999 / 100)]
   = [\<lparr>rMerchantName = js ''Netflix'', rAmount = binary64 (999 / 100), rFrequency = 3\<rparr>]"
  by (simp add: recurring_eval_defs)

lemma identifyRecurring_varying:
  "identifyRecurringTransactions
     [charge (js ''Netflix'') (999 / 100), charge (js ''Netflix'') 50, charge (js ''Netflix'') 5]
   = []"
  by (simp add: recurring_eval_defs)

lemma identifyRecurring_by_description:
  "identifyRecurringTransactions
     [payment None (js ''RENT'') 1200, payment (Some (js ''Gym'')) (js ''MEMBERSHIP'') 30,
      payment (Some []) (js ''RENT'') 1200]
   = [\<lparr>rMerchantName = js ''RENT'', rAmount = Fin 1200, rFrequency = 2\<rparr>]"
  by (simp add: recurring_eval_defs)

lemma identifyRecurring_by_name_first:
  "identifyRecurringTransactions
     [payment (Some (js ''Gym'')) (js ''MEMBERSHIP'') 30, payment (Some (js ''Pool'')) (js ''MEMBERSHIP'') 30]
   = []"
  by (simp add: recurring_eval_defs)

text \<open>
  The numbers of the rule are those of binary64 arithmetic, and the literal \<open>0.1\<close> is
  the Number nearest to one tenth. For charges of 4.20 and 5.60 the computed mean is
  4.9, the computed variance 0.48999999999999966 and the computed tenth of the mean
  0.49000000000000005. For three charges of 2, fourteen of 3 and three of 4 the computed
  mean is 3, the computed variance the Number nearest to 0.3 and the computed tenth of
  the mean 0.30000000000000004, the next Number. Both merchants are reported.
\<close>

lemma identifyRecurring_rounded:
  "mean [binary64 (42 / 10), binary64 (56 / 10)] = binary64 (49 / 10)"
  "populationVariance [binary64 (42 / 10), binary64 (56 / 10)] = binary64 (48999999999999966 / 10 ^ 17)"
  "mul64 (binary64 (49 / 10)) (binary64 (1 / 10)) = binary64 (49000000000000005 / 10 ^ 17)"
  "map rMerchantName (identifyRecurringTransactions
     [charge (js ''Gym'') (42 / 10), charge (js ''Gym'') (56 / 10)]) = [js ''Gym'']"
  by (simp_all add: recurring_eval_defs mean_def populationVariance_def sum64_def)

lemma identifyRecurring_tenth:
  "mean (map Fin [2, 2, 2, 3, 3, 3, 3, 3, 3, 3, 3, 3, 3, 3, 3, 3, 3, 4, 4, 4]) = Fin 3"
  "populationVariance (map Fin [2, 2, 2, 3, 3, 3, 3, 3, 3, 3, 3, 3, 3, 3, 3, 3, 3, 4, 4, 4]) =
     binary64 (3 / 10)"
  "mul64 (Fin 3) (binary64 (1 / 10)) = binary64 (30000000000000004 / 10 ^ 17)"
  "map rFrequency (identifyRecurringTransactions
     (map (charge (js ''Gym'')) [2, 2, 2, 3, 3, 3, 3, 3, 3, 3, 3, 3, 3, 3, 3, 3, 3, 4, 4, 4])) = [20]"
  by (simp_all add: recurring_eval_defs mean_def populationVariance_def sum64_def)

text \<open>
  C7. Recurring detection: a merchant key (the merchant name, or the description when
  the name is absent or empty) is reported as recurring if and only if at least two
  transactions have this key and the population variance of their amounts is strictly
  below 0.1 times their mean, the mean, the variance and the product being the Numbers
  that binary64 arithmetic gives. Three charges of 9.99 at one merchant are reported
  (mean 9.99, three occurrences); charges of 9.99, 50.00 and 5.00 are not. Two payments
  of 1200 without a merchant name and of one description are reported under the
  description; two payments of one description and of different merchant names are not.
\<close>

theorem identifyRecurring_variance_rule:
  "((\<exists>e \<in> set (identifyRecurringTransactions txs). rMerchantName e = m) \<longleftrightarrow>
      (2 \<le> length (groupAmounts txs m) \<and>
       jsLt (populationVariance (groupAmounts txs m))
         (mul64 (mean (groupAmounts txs m)) (binary64 (1 / 10))))) \<and>
   identifyRecurringTransactions
     [charge (js ''Netflix'') (999 / 100), charge (js ''Netflix'') (999 / 100),
      charge (js ''Netflix'') (999 / 100)]
     = [\<lparr>rMerchantName = js ''Netflix'', rAmount = binary64 (999 / 100), rFrequency = 3\<rparr>] \<and>
   identifyRecurringTransactions
     [charge (js ''Netflix'') (999 / 100), charge (js ''Netflix'') 50, charge (js ''Netflix'') 5]
     = [] \<and>
   identifyRecurringTransactions
     [payment None (js ''RENT'') 1200, payment (Some (js ''Gym'')) (js ''MEMBERSHIP'') 30,
      payment (Some []) (js ''RENT'') 1200]
     = [\<lparr>rMerchantName = js ''RENT'', rAmount = Fin 1200, rFrequency = 2\<rparr>] \<and>
   identifyRecurringTransactions
     [payment (Some (js ''Gym'')) (js ''MEMBERSHIP'') 30, payment (Some (js ''Pool'')) (js ''MEMBERSHIP'') 30]
     = []"
proof -
  have "(\<exists>e \<in> set (identifyRecurringTransactions txs). rMerchantName e = m) \<longleftrightarrow>
       (2 \<le> length (groupAmounts txs m) \<and>
        jsLt (populationVariance (groupAmounts txs m))
          (mul64 (mean (groupAmounts txs m)) (binary64 (1 / 10))))"
    (is "?L \<longleftrightarrow> ?R")
  proof
    assume ?L
    then obtain e where e: "e \<in> set (identifyRecurringTransactions txs)" "rMerchantName e = m"
      by blast
    from e(1) obtain k where k: "2 \<le> length (groupAmounts txs k)"
        "jsLt (populationVariance (groupAmounts txs k))
          (mul64 (mean (groupAmounts txs k)) (binary64 (1 / 10)))"
        "e = \<lparr>rMerchantName = k, rAmount = mean (groupAmounts txs k),
              rFrequency = length (groupAmounts txs k)\<rparr>"
      unfolding identifyRecurring_entries by blast
    from k(3) e(2) have "k = m" by simp
    with k show ?R by simp
  next
    assume ?R
    then have "\<lparr>rMerchantName = m, rAmount = mean (groupAmounts txs m),
        rFrequency = length (groupAmounts txs m)\<rparr> \<in> set (identifyRecurringTransactions txs)"
      unfolding identifyRecurring_entries by blast
    then show ?L by force
  qed
  then show ?thesis
    using identifyRecurring_steady identifyRecurring_varying identifyRecurring_by_description
      identifyRecurring_by_name_first by blast
qed

section \<open>CSV import: results\<close>

lemma parseTransaction_zero_amount:
  assumes "extractDate newDate (rowOf headers vs) (dateColumns p) \<noteq> None"
    and "extractDescription (rowOf headers vs) (descriptionColumns p) \<noteq> []"
    and "fst (extractAmount (rowOf headers vs) (amountColumns p) (typeColumn p)) = Fin 0"
  shows "parseTransaction newDate now headers vs p n = Inr None"
  using assms
  by (auto simp: parseTransaction_def Let_def split: option.splits prod.splits)

text \<open>
  The amount of a row resolves to 0 when its amount strings do: in particular when
  \<open>parseFloat\<close> reads no number in them, \<open>parseAmount\<close> giving 0 then.
\<close>

lemma extractAmount_unparsed:
  assumes "parseAmount (rowValue row (columnAt cols 0)) = Fin 0"
    and "parseAmount (rowValue row (columnAt cols 1)) = Fin 0"
  shows "fst (extractAmount row cols tc) = Fin 0"
  using assms by (simp add: extractAmount_def Let_def)

lemma importCSV_end_to_end:
  "importCSV isoDateParse fixedClock
     (chaseHeader @ [0x0A] @ js ''2024-01-15,STARBUCKS #1,DEBIT,-42.10'' @ [0x0A] @
      js ''2024-01-16,STARBUCKS #1,DEBIT,n/a'' @ [0x0A]) None =
   \<lparr>transactions = [\<lparr>txId = js ''imported-1700000000001-1'', accountId = [], date = 1705276800000,
        description = js ''STARBUCKS #1'', amount = binary64 (421 / 10), type = Expense, category = Other,
        isRecurring = False, merchantName = Some (js ''STARBUCKS''), location = None, txNotes = None\<rparr>],
    errors = []\<rparr>"
  by code_simp

text \<open>
  A row without a date is one of the row-level failures: \<open>parseTransaction\<close> throws
  before it looks at the amount, and the loop appends the error of the line.
\<close>

lemma importCSV_missing_date_row:
  "importCSV isoDateParse fixedClock (chaseHeader @ [0x0A] @ js '',STARBUCKS,DEBIT,abc'') None =
   \<lparr>transactions = [],
    errors = [js ''L'' @ [0xED] @ js ''nea 2: Fecha no encontrada o inv'' @ [0xE1] @ js ''lida'']\<rparr>"
  by code_simp

text \<open>
  C6. A row whose date and description are found and whose amount resolves to 0, as it
  does when the amount string fails to parse: \<open>parseTransaction\<close> returns \<open>null\<close>, and
  the loop of \<open>importCSV\<close> goes on with the next row with the transactions and the
  errors it had before the row. The row gives no transaction and no error string.
\<close>

theorem importRows_zero_amount_row:
  assumes "extractDate newDate (rowOf headers (parseCSVLine line)) (dateColumns p) \<noteq> None"
    and "extractDescription (rowOf headers (parseCSVLine line)) (descriptionColumns p) \<noteq> []"
    and "fst (extractAmount (rowOf headers (parseCSVLine line)) (amountColumns p) (typeColumn p)) = Fin 0"
  shows "parseTransaction newDate (clock i) headers (parseCSVLine line) p i = Inr None \<and>
         importRows newDate clock headers p i (line # rest) acc =
         importRows newDate clock headers p (Suc i) rest acc"
  using parseTransaction_zero_amount [OF assms] by (simp add: Let_def)

theorem importRows_zero_amount_row_witness:
  "extractDate isoDateParse
      (rowOf (parseCSVLine chaseHeader) (parseCSVLine (js ''2024-01-15,STARBUCKS,DEBIT,abc'')))
      (dateColumns chase) \<noteq> None \<and>
   extractDescription
      (rowOf (parseCSVLine chaseHeader) (parseCSVLine (js ''2024-01-15,STARBUCKS,DEBIT,abc'')))
      (descriptionColumns chase) \<noteq> [] \<and>
   parseFloat (cleanAmount (js ''abc'')) = NaN \<and>
   fst (extractAmount
      (rowOf (parseCSVLine chaseHeader) (parseCSVLine (js ''2024-01-15,STARBUCKS,DEBIT,abc'')))
      (amountColumns chase) (typeColumn chase)) = Fin 0 \<and>
   importRows isoDateParse fixedClock (parseCSVLine chaseHeader) chase 1
      [js ''2024-01-15,STARBUCKS,DEBIT,abc''] \<lparr>transactions = [], errors = []\<rparr> =
   \<lparr>transactions = [], errors = []\<rparr>"
proof -
  let ?hs = "parseCSVLine chaseHeader"
  let ?line = "js ''2024-01-15,STARBUCKS,DEBIT,abc''"
  have a: "fst (extractAmount (rowOf ?hs (parseCSVLine ?line)) (amountColumns chase) (typeColumn chase)) = Fin 0"
    by code_simp
  have n: "parseFloat (cleanAmount (js ''abc'')) = NaN"
    by code_simp
  have d: "extractDate isoDateParse (rowOf ?hs (parseCSVLine ?line)) (dateColumns chase) \<noteq> None"
    by code_simp
  have e: "extractDescription (rowOf ?hs (parseCSVLine ?line)) (descriptionColumns chase) \<noteq> []"
    by code_simp
  from importRows_zero_amount_row [OF d e a, of fixedClock 1 "[]" "\<lparr>transactions = [], errors = []\<rparr>"]
  have "importRows isoDateParse fixedClock ?hs chase 1 [?line] \<lparr>transactions = [], errors = []\<rparr> =
      importRows isoDateParse fixedClock ?hs chase (Suc 1) [] \<lparr>transactions = [], errors = []\<rparr>"
    by blast
  then have "importRows isoDateParse fixedClock ?hs chase 1 [?line] \<lparr>transactions = [], errors = []\<rparr> =
      \<lparr>transactions = [], errors = []\<rparr>"
    by simp
  with a n d e show ?thesis by blast
qed

section \<open>Insights: results\<close>

lemma comparePriority_le:
  "comparePriority a b \<le> 0 \<longleftrightarrow> priorityOrder (priority b) \<le> priorityOrder (priority a)"
  by (simp add: comparePriority_def)

lemma priorityOrder_inj: "priorityOrder p = priorityOrder q \<longleftrightarrow> p = q"
  by (cases p; cases q) simp_all

lemma set_insertSorted: "set (insertSorted cmp x ys) = insert x (set ys)"
  by (induction ys) auto

lemma sorted_insertSorted:
  "sorted_wrt (\<lambda>a b. priorityOrder (priority b) \<le> priorityOrder (priority a)) ys \<Longrightarrow>
   sorted_wrt (\<lambda>a b. priorityOrder (priority b) \<le> priorityOrder (priority a))
     (insertSorted comparePriority x ys)"
  by (induction ys) (auto simp: set_insertSorted comparePriority_le)

lemma sorted_arraySort:
  "sorted_wrt (\<lambda>a b. priorityOrder (priority b) \<le> priorityOrder (priority a))
     (arraySort comparePriority xs)"
  by (induction xs) (simp_all add: arraySort_def sorted_insertSorted)

lemma filter_insertSorted:
  "filter (\<lambda>i. priority i = p) (insertSorted comparePriority x ys) =
   (if priority x = p then x # filter (\<lambda>i. priority i = p) ys else filter (\<lambda>i. priority i = p) ys)"
proof (induction ys)
  case Nil
  then show ?case by simp
next
  case (Cons y ys)
  show ?case
  proof (cases "comparePriority x y \<le> 0")
    case True
    then show ?thesis by simp
  next
    case False
    then have "priorityOrder (priority y) \<noteq> priorityOrder (priority x)"
      by (simp add: comparePriority_def)
    then have "priority y \<noteq> priority x" by auto
    then show ?thesis using False Cons by auto
  qed
qed

lemma filter_arraySort:
  "filter (\<lambda>i. priority i = p) (arraySort comparePriority xs) = filter (\<lambda>i. priority i = p) xs"
proof (induction xs)
  case Nil
  then show ?case by (simp add: arraySort_def)
next
  case (Cons x xs)
  have "arraySort comparePriority (x # xs) = insertSorted comparePriority x (arraySort comparePriority xs)"
    by (simp add: arraySort_def)
  then show ?case using Cons by (simp add: filter_insertSorted)
qed

lemma generateInsights_sorts:
  "fst (generateInsights txs clk k) = arraySort comparePriority (fst (emittedInsights txs clk k))"
  by (simp add: generateInsights_def andThen_def ret_def split: prod.splits)

lemma calendar_facts:
  "subMonths 1700000000000 1 = 1697321600000"
  "subMonths 1700000000000 2 = 1694729600000"
  "subMonths 1700000000000 3 = 1692051200000"
  "startOfMonth 1700000000000 = 1698796800000"
  "startOfMonth 1697321600000 = 1696118400000"
  "startOfMonth 1694729600000 = 1693526400000"
  "subMonths 1700000060000 1 = 1697321660000"
  "subMonths 1700000060000 2 = 1694729660000"
  "subMonths 1700000060000 3 = 1692051260000"
  "startOfMonth 1700000060000 = 1698796800000"
  "startOfMonth 1697321660000 = 1696118400000"
  "startOfMonth 1694729660000 = 1693526400000"
  "subMonths 1702600000000 1 = 1700008000000"
  "subMonths 1702600000000 2 = 1697329600000"
  "subMonths 1702600000000 3 = 1694737600000"
  "startOfMonth 1702600000000 = 1701388800000"
  "startOfMonth 1700008000000 = 1698796800000"
  "startOfMonth 1697329600000 = 1696118400000"
  "formatYearMonth 1699900000000 = js ''2023-11''"
  by code_simp+

lemma text_facts:
  "showInt 1700000000000 = js ''1700000000000''"
  "showInt 1700000060000 = js ''1700000060000''"
  "showInt 1702600000000 = js ''1702600000000''"
  "toFixed (Fin 3000) 2 = js ''3000.00''"
  "toFixed (Fin 1500) 2 = js ''1500.00''"
  "toFixed (Fin 900) 2 = js ''900.00''"
  "toFixed (Fin 600) 2 = js ''600.00''"
  by code_simp+

lemmas insight_eval_defs =
  generateInsights_def emittedInsights_def detectUnnecessaryExpenses_def detectRecurringExpenses_def
  detectUnusualSpending_def suggestBudgetOptimizations_def analyzeIncomeOpportunities_def
  detectIncomePatterns_def smallFoodInsight_def subscriptionInsights_def excessiveShoppingInsight_def
  andThen_def readClock_def ret_def frozenClock_def sampleHistory_def incomeOf_def
  totalAmount_def sumAmounts_def groupByMonth_def orZero_def mapGet_def
  identifyRecurringTransactions_def groupByMerchant_def merchantKey_def recurringOf.simps
  arraySort_def comparePriority_def Let_def

lemma generateInsights_ids_first:
  "map insightId (fst (generateInsights sampleHistory (frozenClock 1700000000000) 0)) =
    [js ''insight-budget-rule-1700000000000'', js ''insight-additional-income-1700000000000'']"
  by (simp add: insight_eval_defs calendar_facts text_facts js_def)

lemma generateInsights_ids_later:
  "map insightId (fst (generateInsights sampleHistory (frozenClock 1700000060000) 0)) =
    [js ''insight-budget-rule-1700000060000'', js ''insight-additional-income-1700000060000'']"
  by (simp add: insight_eval_defs calendar_facts text_facts js_def)

lemma generateInsights_created_first:
  "map createdAt (fst (generateInsights sampleHistory (frozenClock 1700000000000) 0)) =
    [1700000000000, 1700000000000]"
  by (simp add: insight_eval_defs calendar_facts text_facts js_def)

lemma generateInsights_reads:
  "snd (generateInsights sampleHistory (frozenClock 1700000000000) 0) = 7"
  by (simp add: insight_eval_defs calendar_facts text_facts js_def)

text \<open>
  A month later the salary payment is no longer of the current month: the insight on the
  50/30/20 rule is not emitted any more, and the output differs by more than its stamps.
\<close>

lemma generateInsights_ids_next_month:
  "map insightId (fst (generateInsights sampleHistory (frozenClock 1702600000000) 0)) =
    [js ''insight-additional-income-1702600000000'']"
  by (simp add: insight_eval_defs calendar_facts text_facts js_def)

lemma generateInsights_differs_next_month:
  "map unstamped (fst (generateInsights sampleHistory (frozenClock 1700000000000) 0)) \<noteq>
   map unstamped (fst (generateInsights sampleHistory (frozenClock 1702600000000) 0))"
proof
  assume "map unstamped (fst (generateInsights sampleHistory (frozenClock 1700000000000) 0)) =
      map unstamped (fst (generateInsights sampleHistory (frozenClock 1702600000000) 0))"
  then have "length (map insightId (fst (generateInsights sampleHistory (frozenClock 1700000000000) 0))) =
      length (map insightId (fst (generateInsights sampleHistory (frozenClock 1702600000000) 0)))"
    by (metis length_map)
  then show False
    unfolding generateInsights_ids_first generateInsights_ids_next_month by simp
qed

lemma sameWindows_a_minute_later: "sameWindows sampleHistory 1700000000000 1700000060000"
  by (simp add: sameWindows_def sameSide_def sampleHistory_def incomeOf_def calendar_facts)

lemma sameWindows_next_month: "\<not> sameWindows sampleHistory 1700000000000 1702600000000"
  by (simp add: sameWindows_def sameSide_def sampleHistory_def incomeOf_def calendar_facts)

text \<open>
  C10. Whatever the transactions and the clock, the list \<open>generateInsights\<close> returns is
  in descending order of priority (high, then medium, then low), and for each priority
  its insights of that priority are those the detectors emitted, in the order of
  emission: the sort is stable. On four insights a, b, c, d of priorities low, high,
  medium, high the sort gives b, d, c, a, of priorities high, high, medium, low.
\<close>

theorem generateInsights_priority_sorted_stable:
  "sorted_wrt (\<lambda>a b. priorityOrder (priority b) \<le> priorityOrder (priority a))
     (fst (generateInsights txs clk k)) \<and>
   filter (\<lambda>i. priority i = p) (fst (generateInsights txs clk k)) =
     filter (\<lambda>i. priority i = p) (fst (emittedInsights txs clk k)) \<and>
   map priority samplePriorities = [Low, High, Medium, High] \<and>
   map priority (arraySort comparePriority samplePriorities) = [High, High, Medium, Low] \<and>
   map insightId (arraySort comparePriority samplePriorities) = [js ''b'', js ''d'', js ''c'', js ''a'']"
proof -
  have "map priority samplePriorities = [Low, High, Medium, High] \<and>
      map priority (arraySort comparePriority samplePriorities) = [High, High, Medium, Low] \<and>
      map insightId (arraySort comparePriority samplePriorities) = [js ''b'', js ''d'', js ''c'', js ''a'']"
    by (simp add: samplePriorities_def arraySort_def comparePriority_def)
  then show ?thesis
    by (simp add: generateInsights_sorts sorted_arraySort filter_arraySort)
qed

lemma related_ret: "R x y \<Longrightarrow> related W R (ret x) (ret y)"
  by (simp add: related_def ret_def)

lemma related_readClock: "related W W readClock readClock"
  by (simp add: related_def readClock_def)

lemma related_run:
  "related W R m1 m2 \<Longrightarrow> \<forall>j1 j2. W (clk1 j1) (clk2 j2) \<Longrightarrow> R (fst (m1 clk1 k1)) (fst (m2 clk2 k2))"
  by (simp add: related_def)

lemma related_andThen:
  assumes m: "related W R m1 m2" and f: "\<And>x y. R x y \<Longrightarrow> related W S (f x) (g y)"
  shows "related W S (andThen m1 f) (andThen m2 g)"
  unfolding related_def
proof (intro allI impI)
  fix clk1 clk2 :: clock and k1 k2
  assume w: "\<forall>j1 j2. W (clk1 j1) (clk2 j2)"
  obtain x k1' where 1: "m1 clk1 k1 = (x, k1')" by (cases "m1 clk1 k1")
  obtain y k2' where 2: "m2 clk2 k2 = (y, k2')" by (cases "m2 clk2 k2")
  have "R x y" using m w 1 2 unfolding related_def by (metis fst_conv)
  then have "S (fst (f x clk1 k1')) (fst (g y clk2 k2'))"
    using f w unfolding related_def by blast
  then show "S (fst (andThen m1 f clk1 k1)) (fst (andThen m2 g clk2 k2))"
    by (simp add: andThen_def 1 2)
qed

lemma related_read:
  assumes "\<And>r1 r2. W r1 r2 \<Longrightarrow> related W S (f r1) (g r2)"
  shows "related W S (andThen readClock f) (andThen readClock g)"
  using related_readClock assms by (rule related_andThen)

lemma related_then:
  assumes "related W sameInsights m1 m2"
    and "\<And>x y. sameInsights x y \<Longrightarrow> related W S (f x) (g y)"
  shows "related W S (andThen m1 f) (andThen m2 g)"
  using assms by (rule related_andThen)

lemma related_if:
  assumes "c \<Longrightarrow> related W R a1 a2" and "\<not> c \<Longrightarrow> related W R b1 b2"
  shows "related W R (if c then a1 else b1) (if c then a2 else b2)"
  using assms by simp

lemma sameInsights_Nil: "sameInsights [] []"
  by (simp add: sameInsights_def)

lemma sameInsights_append:
  "sameInsights x y \<Longrightarrow> sameInsights x' y' \<Longrightarrow> sameInsights (x @ x') (y @ y')"
  by (simp add: sameInsights_def)

lemma related_forEach:
  assumes "\<And>x. related W sameInsights (body1 x) (body2 x)"
  shows "related W sameInsights (forEach xs body1) (forEach xs body2)"
proof (induction xs)
  case Nil
  show ?case by (simp add: related_ret sameInsights_Nil)
next
  case (Cons x xs)
  show ?case
    unfolding forEach.simps
    by (intro related_then assms Cons related_ret sameInsights_append)
qed

lemmas related_intros =
  related_read related_then related_if related_ret related_forEach
  sameInsights_Nil sameInsights_append

lemma sameInsights_single:
  "insightType a = insightType b \<Longrightarrow> title a = title b \<Longrightarrow>
   insightDescription a = insightDescription b \<Longrightarrow> insightCategory a = insightCategory b \<Longrightarrow>
   potentialSavings a = potentialSavings b \<Longrightarrow> actionable a = actionable b \<Longrightarrow>
   priority a = priority b \<Longrightarrow> sameInsights [a] [b]"
  by (cases a; cases b) (simp add: sameInsights_def unstamped_def)

lemma related_smallFoodInsight:
  "related W sameInsights (smallFoodInsight r1 ce) (smallFoodInsight r2 ce)"
  unfolding smallFoodInsight_def Let_def
  by (intro related_intros sameInsights_single) simp_all

lemma related_subscriptionInsights:
  "related W sameInsights (subscriptionInsights r1 ce) (subscriptionInsights r2 ce)"
  unfolding subscriptionInsights_def Let_def
  by (intro related_intros sameInsights_single) simp_all

lemma related_excessiveShoppingInsight:
  "related W sameInsights (excessiveShoppingInsight r1 ce) (excessiveShoppingInsight r2 ce)"
  unfolding excessiveShoppingInsight_def Let_def
  by (intro related_intros sameInsights_single) simp_all


lemma sameWindows_sides:
  assumes "sameWindows txs r1 r2" and "t \<in> set txs"
  shows "(subMonths r1 1 \<le> date t) = (subMonths r2 1 \<le> date t)"
    and "(subMonths r1 3 \<le> date t) = (subMonths r2 3 \<le> date t)"
    and "(startOfMonth r1 \<le> date t) = (startOfMonth r2 \<le> date t)"
    and "(startOfMonth (subMonths r1 1) \<le> date t) = (startOfMonth (subMonths r2 1) \<le> date t)"
    and "(startOfMonth (subMonths r1 2) \<le> date t) = (startOfMonth (subMonths r2 2) \<le> date t)"
    and "(r1 - 30 * 24 * 60 * 60 * 1000 \<le> date t) = (r2 - 30 * 24 * 60 * 60 * 1000 \<le> date t)"
    and "(r1 - 90 * 24 * 60 * 60 * 1000 \<le> date t) = (r2 - 90 * 24 * 60 * 60 * 1000 \<le> date t)"
    and "(date t < startOfMonth r1) = (date t < startOfMonth r2)"
    and "(date t < startOfMonth (subMonths r1 1)) = (date t < startOfMonth (subMonths r2 1))"
proof -
  note w = assms [unfolded sameWindows_def sameSide_def list_all_iff]
  show "(subMonths r1 1 \<le> date t) = (subMonths r2 1 \<le> date t)" using w by blast
  show "(subMonths r1 3 \<le> date t) = (subMonths r2 3 \<le> date t)" using w by blast
  show 3: "(startOfMonth r1 \<le> date t) = (startOfMonth r2 \<le> date t)" using w by blast
  show 4: "(startOfMonth (subMonths r1 1) \<le> date t) = (startOfMonth (subMonths r2 1) \<le> date t)"
    using w by blast
  show "(startOfMonth (subMonths r1 2) \<le> date t) = (startOfMonth (subMonths r2 2) \<le> date t)"
    using w by blast
  show "(r1 - 30 * 24 * 60 * 60 * 1000 \<le> date t) = (r2 - 30 * 24 * 60 * 60 * 1000 \<le> date t)"
    using w by blast
  show "(r1 - 90 * 24 * 60 * 60 * 1000 \<le> date t) = (r2 - 90 * 24 * 60 * 60 * 1000 \<le> date t)"
    using w by blast
  show "(date t < startOfMonth r1) = (date t < startOfMonth r2)"
    using 3 by (simp add: not_le [symmetric])
  show "(date t < startOfMonth (subMonths r1 1)) = (date t < startOfMonth (subMonths r2 1))"
    using 4 by (simp add: not_le [symmetric])
qed

lemma related_detectUnnecessaryExpenses:
  "related (sameWindows txs) sameInsights (detectUnnecessaryExpenses txs) (detectUnnecessaryExpenses txs)"
  unfolding detectUnnecessaryExpenses_def
  apply (rule related_read)
  subgoal premises w for r1 r2
  proof -
    have f: "filter (\<lambda>t. type t = Expense \<and> category t = c \<and> subMonths r1 1 \<le> date t) txs =
        filter (\<lambda>t. type t = Expense \<and> category t = c \<and> subMonths r2 1 \<le> date t) txs" for c
      by (rule filter_cong) (simp_all add: sameWindows_sides [OF w])
    show ?thesis
      unfolding Let_def f
      by (intro related_intros related_smallFoodInsight related_subscriptionInsights
          related_excessiveShoppingInsight)
  qed
  done

lemma related_detectRecurringExpenses:
  "related W sameInsights (detectRecurringExpenses txs) (detectRecurringExpenses txs)"
  unfolding detectRecurringExpenses_def Let_def
  by (intro related_intros sameInsights_single) simp_all

lemma related_detectUnusualSpending:
  "related (sameWindows txs) sameInsights (detectUnusualSpending txs) (detectUnusualSpending txs)"
  unfolding detectUnusualSpending_def
  apply (rule related_read)
  subgoal premises w for r1 r2
  proof -
    have f: "filter (\<lambda>t. type t = Expense \<and> category t = c \<and> startOfMonth r1 \<le> date t) txs =
        filter (\<lambda>t. type t = Expense \<and> category t = c \<and> startOfMonth r2 \<le> date t) txs" for c
      by (rule filter_cong) (simp_all add: sameWindows_sides [OF w])
    have g: "filter (\<lambda>t. type t = Expense \<and> category t = c \<and> startOfMonth (subMonths r1 1) \<le> date t \<and>
            date t < startOfMonth r1) txs =
        filter (\<lambda>t. type t = Expense \<and> category t = c \<and> startOfMonth (subMonths r2 1) \<le> date t \<and>
            date t < startOfMonth r2) txs" for c
      by (rule filter_cong) (simp_all add: sameWindows_sides [OF w])
    have h: "filter (\<lambda>t. type t = Expense \<and> category t = c \<and> startOfMonth (subMonths r1 2) \<le> date t \<and>
            date t < startOfMonth (subMonths r1 1)) txs =
        filter (\<lambda>t. type t = Expense \<and> category t = c \<and> startOfMonth (subMonths r2 2) \<le> date t \<and>
            date t < startOfMonth (subMonths r2 1)) txs" for c
      by (rule filter_cong) (simp_all add: sameWindows_sides [OF w])
    show ?thesis
      unfolding Let_def f g h
      by (intro related_intros sameInsights_single) simp_all
  qed
  done

lemma related_suggestBudgetOptimizations:
  "related (sameWindows txs) sameInsights (suggestBudgetOptimizations txs) (suggestBudgetOptimizations txs)"
  unfolding suggestBudgetOptimizations_def
  apply (rule related_read)
  subgoal premises w for r1 r2
  proof -
    have f: "filter (\<lambda>t. type t = ty \<and> startOfMonth r1 \<le> date t) txs =
        filter (\<lambda>t. type t = ty \<and> startOfMonth r2 \<le> date t) txs" for ty
      by (rule filter_cong) (simp_all add: sameWindows_sides [OF w])
    show ?thesis
      unfolding Let_def f
      by (intro related_intros sameInsights_single) simp_all
  qed
  done

lemma related_analyzeIncomeOpportunities:
  "related (sameWindows txs) sameInsights (analyzeIncomeOpportunities txs) (analyzeIncomeOpportunities txs)"
  unfolding analyzeIncomeOpportunities_def
  apply (rule related_read)
  subgoal premises w for r1 r2
  proof -
    have f: "filter (\<lambda>t. type t = Income \<and> subMonths r1 3 \<le> date t) txs =
        filter (\<lambda>t. type t = Income \<and> subMonths r2 3 \<le> date t) txs"
      by (rule filter_cong) (simp_all add: sameWindows_sides [OF w])
    show ?thesis
      unfolding Let_def f
      by (intro related_intros sameInsights_single) simp_all
  qed
  done

lemma related_detectIncomePatterns:
  "related (sameWindows txs) sameInsights (detectIncomePatterns txs) (detectIncomePatterns txs)"
  unfolding detectIncomePatterns_def
  apply (rule related_read)
  subgoal premises w for r1 r2
  proof -
    have f: "filter (\<lambda>t. type t = Income \<and> subMonths r1 3 \<le> date t) txs =
        filter (\<lambda>t. type t = Income \<and> subMonths r2 3 \<le> date t) txs"
      by (rule filter_cong) (simp_all add: sameWindows_sides [OF w])
    show ?thesis
      unfolding Let_def f
      by (intro related_intros sameInsights_single) simp_all
  qed
  done

lemmas related_detectors =
  related_detectUnnecessaryExpenses related_detectRecurringExpenses related_detectUnusualSpending
  related_suggestBudgetOptimizations related_analyzeIncomeOpportunities related_detectIncomePatterns

lemma related_emittedInsights:
  "related (sameWindows txs) sameInsights (emittedInsights txs) (emittedInsights txs)"
  unfolding emittedInsights_def
  by (intro related_then related_detectors related_ret sameInsights_append)

lemma unstamped_insertSorted:
  "map unstamped (insertSorted comparePriority x ys) =
   insertSorted comparePriority (unstamped x) (map unstamped ys)"
  by (induction ys) (simp_all add: comparePriority_def unstamped_def)

lemma unstamped_arraySort:
  "map unstamped (arraySort comparePriority xs) = arraySort comparePriority (map unstamped xs)"
  by (induction xs) (simp_all add: arraySort_def unstamped_insertSorted)

lemma related_generateInsights:
  "related (sameWindows txs) sameInsights (generateInsights txs) (generateInsights txs)"
  unfolding generateInsights_def
proof (intro related_then related_emittedInsights related_ret)
  fix x y
  assume "sameInsights x y"
  then show "sameInsights (arraySort comparePriority x) (arraySort comparePriority y)"
    by (simp add: sameInsights_def unstamped_arraySort)
qed

lemma related_analyzeSpendingPatterns:
  "related (sameWindows txs) (=) (analyzeSpendingPatterns txs) (analyzeSpendingPatterns txs)"
  unfolding analyzeSpendingPatterns_def
  apply (rule related_read)
  subgoal premises w for r1 r2
  proof -
    have f: "filter (\<lambda>t. type t = Expense \<and> r1 - 30 * 24 * 60 * 60 * 1000 \<le> date t) txs =
        filter (\<lambda>t. type t = Expense \<and> r2 - 30 * 24 * 60 * 60 * 1000 \<le> date t) txs"
      by (rule filter_cong) (use sameWindows_sides(6) [OF w] in simp_all)
    show ?thesis
      unfolding Let_def f by (rule related_ret) (rule refl)
  qed
  done

lemma related_analyzeIncomePatterns:
  "related (sameWindows txs) (=) (analyzeIncomePatterns txs) (analyzeIncomePatterns txs)"
  unfolding analyzeIncomePatterns_def
  apply (rule related_read)
  subgoal premises w for r1 r2
  proof -
    have f: "filter (\<lambda>t. type t = Income \<and> r1 - 90 * 24 * 60 * 60 * 1000 \<le> date t) txs =
        filter (\<lambda>t. type t = Income \<and> r2 - 90 * 24 * 60 * 60 * 1000 \<le> date t) txs"
      by (rule filter_cong) (use sameWindows_sides(7) [OF w] in simp_all)
    show ?thesis
      unfolding Let_def f by (rule related_ret) (rule refl)
  qed
  done


text \<open>
  C5, as the claim states it: two invocations on the identical transaction list give the
  identical output, ids and timestamps included. It fails: the ids and \<open>createdAt\<close> are
  made of the clock readings (\<open>Date.now()\<close>, \<open>new Date()\<close>). On the history of one
  salary payment, an invocation at the instant 1700000000000 and one a minute later
  give insights of different ids.
\<close>

theorem generateInsights_differs_a_minute_later:
  "map insightId (fst (generateInsights sampleHistory (frozenClock 1700000000000) 0)) =
     [js ''insight-budget-rule-1700000000000'', js ''insight-additional-income-1700000000000''] \<and>
   map insightId (fst (generateInsights sampleHistory (frozenClock 1700000060000) 0)) =
     [js ''insight-budget-rule-1700000060000'', js ''insight-additional-income-1700000060000''] \<and>
   fst (generateInsights sampleHistory (frozenClock 1700000000000) 0) \<noteq>
   fst (generateInsights sampleHistory (frozenClock 1700000060000) 0)"
proof -
  have "map insightId (fst (generateInsights sampleHistory (frozenClock 1700000000000) 0)) \<noteq>
      map insightId (fst (generateInsights sampleHistory (frozenClock 1700000060000) 0))"
    unfolding generateInsights_ids_first generateInsights_ids_later by (simp add: js_def)
  then have "fst (generateInsights sampleHistory (frozenClock 1700000000000) 0) \<noteq>
      fst (generateInsights sampleHistory (frozenClock 1700000060000) 0)"
    by auto
  then show ?thesis
    using generateInsights_ids_first generateInsights_ids_later by blast
qed

text \<open>
  C5, amended. The categorizer is a function of its two arguments and reads no clock.
  The six insight detectors, \<open>generateInsights\<close> and the two pattern functions read the
  clock, and their output depends on the readings in two ways only: through the side of
  each window bound on which each transaction falls, and through the ids and the
  \<open>createdAt\<close> of the insights. Invoked twice on the identical transaction list, on
  clocks whose readings put every transaction on the same side of every bound, the
  detectors and \<open>generateInsights\<close> give the same insights in the same order, field for
  field but for the ids and \<open>createdAt\<close>, and the pattern functions give the same
  patterns.
\<close>

theorem insights_same_but_for_stamps:
  assumes "\<forall>j1 j2. sameWindows txs (clk1 j1) (clk2 j2)"
  shows "map unstamped (fst (generateInsights txs clk1 k1)) =
           map unstamped (fst (generateInsights txs clk2 k2)) \<and>
         map unstamped (fst (detectUnnecessaryExpenses txs clk1 k1)) =
           map unstamped (fst (detectUnnecessaryExpenses txs clk2 k2)) \<and>
         map unstamped (fst (detectRecurringExpenses txs clk1 k1)) =
           map unstamped (fst (detectRecurringExpenses txs clk2 k2)) \<and>
         map unstamped (fst (detectUnusualSpending txs clk1 k1)) =
           map unstamped (fst (detectUnusualSpending txs clk2 k2)) \<and>
         map unstamped (fst (suggestBudgetOptimizations txs clk1 k1)) =
           map unstamped (fst (suggestBudgetOptimizations txs clk2 k2)) \<and>
         map unstamped (fst (analyzeIncomeOpportunities txs clk1 k1)) =
           map unstamped (fst (analyzeIncomeOpportunities txs clk2 k2)) \<and>
         map unstamped (fst (detectIncomePatterns txs clk1 k1)) =
           map unstamped (fst (detectIncomePatterns txs clk2 k2)) \<and>
         fst (analyzeSpendingPatterns txs clk1 k1) = fst (analyzeSpendingPatterns txs clk2 k2) \<and>
         fst (analyzeIncomePatterns txs clk1 k1) = fst (analyzeIncomePatterns txs clk2 k2)"
proof -
  note run = related_run [OF _ assms]
  show ?thesis
    using run [OF related_generateInsights] run [OF related_detectUnnecessaryExpenses]
      run [OF related_detectRecurringExpenses] run [OF related_detectUnusualSpending]
      run [OF related_suggestBudgetOptimizations] run [OF related_analyzeIncomeOpportunities]
      run [OF related_detectIncomePatterns] run [OF related_analyzeSpendingPatterns]
      run [OF related_analyzeIncomePatterns]
    unfolding sameInsights_def by blast
qed

theorem insights_same_but_for_stamps_witness:
  "sameWindows sampleHistory 1700000000000 1700000060000 \<and>
   map unstamped (fst (generateInsights sampleHistory (frozenClock 1700000000000) 0)) =
   map unstamped (fst (generateInsights sampleHistory (frozenClock 1700000060000) 0)) \<and>
   map createdAt (fst (generateInsights sampleHistory (frozenClock 1700000000000) 0)) =
     [1700000000000, 1700000000000]"
proof -
  have w: "\<forall>j1 j2. sameWindows sampleHistory (frozenClock 1700000000000 j1) (frozenClock 1700000060000 j2)"
    by (simp add: frozenClock_def sameWindows_a_minute_later)
  from insights_same_but_for_stamps [OF w, of 0 0]
  have "map unstamped (fst (generateInsights sampleHistory (frozenClock 1700000000000) 0)) =
      map unstamped (fst (generateInsights sampleHistory (frozenClock 1700000060000) 0))"
    by blast
  then show ?thesis
    using sameWindows_a_minute_later generateInsights_created_first by blast
qed

section \<open>The daily budget: results\<close>

lemma budget_calendar:
  "getFullYear 1700000000000 = 2023" "getMonth 1700000000000 = 10" "getDate 1700000000000 = 14"
  "makeDate 2023 10 1 = 1698796800000" "makeDate 2023 11 0 = 1701302400000"
  "getDate 1701302400000 = 30"
  "getFullYear 1698796800000 = 2023" "getMonth 1698796800000 = 10" "getDate 1698796800000 = 1"
  by code_simp+

lemmas budget_eval_defs =
  calculateDailyBudget_def andThen_def readClock_def ret_def frozenClock_def
  totalAmount_def sumAmounts_def jsSub_def msPerDay_def Let_def patternOf_def expenseOf_def

lemma calculateDailyBudget_first_day:
  "fst (calculateDailyBudget [] [] [patternOf (js ''ACME'') 3000] (frozenClock 1698796800000) 0) =
   \<lparr>budgetDate = 1698883199999, availableToSpend = Fin 100, spent = Fin 0,
    remaining = Fin 100, percentageUsed = Fin 0\<rparr>"
  by (simp add: budget_eval_defs budget_calendar)








end
